theory Spec2Isabelle
  imports Main
begin

section \<open>MongoMemoryServer: data model\<close>

text \<open>
  The embedding follows \<^verbatim>\<open>packages/mongodb-memory-server-core/src/MongoMemoryServer.ts\<close>.
  Interfaces are records, the state enum is a datatype, optional fields are options,
  a rejected promise is the \<open>Inl\<close> of a sum, and everything a method does to the outside
  (driver commands, process launches and kills, warnings, notifications) is appended to a
  list of events in the order in which the statements run. Calls of \<^verbatim>\<open>log\<close> (debug output)
  are left out.
\<close>

text \<open>
  Errors. \<open>Error msg\<close> is a \<^verbatim>\<open>new Error(msg)\<close> thrown by this file; the other constructors
  name a rejection coming from a collaborator (port allocator, file system, process
  supervisor, database driver). \<open>CommandFailed n\<close> is the failure of the \<open>n\<close>-th
  \<^verbatim>\<open>db.command\<close> (counted from 0) of one \<^verbatim>\<open>createAuth\<close> run.
\<close>

datatype error =
    Error string
  | NoPortAvailable
  | DirSyncFailed
  | PathUnreadable
  | LaunchFailed
  | KillFailed
  | ConnectFailed
  | CommandFailed nat
  | CloseFailed

datatype MongoMemoryServerStateEnum = new | starting | running | stopped

fun stateName :: "MongoMemoryServerStateEnum \<Rightarrow> string" where
  "stateName new = ''new''"
| "stateName starting = ''starting''"
| "stateName running = ''running''"
| "stateName stopped = ''stopped''"

text \<open>An entry of \<^verbatim>\<open>roles\<close>: a role name, or a role name with its database.\<close>

datatype Role = RoleName string | RoleDb string string

record CreateUserMongoDB =
  createUser :: string
  pwd :: string
  customData :: "(string \<times> string) list option"
  roles :: "Role list"
  mechanisms :: "string list option"
  authenticationRestrictions :: "(string option \<times> string option) list option"
  digestPassword :: "bool option"

record CreateUser = CreateUserMongoDB +
  database :: "string option"

text \<open>\<^verbatim>\<open>Required<AutomaticAuth>\<close>, the type of \<^verbatim>\<open>this.auth\<close>.\<close>

record AutomaticAuth =
  disable :: bool
  extraUsers :: "CreateUser list"
  customRootName :: string
  customRootPwd :: string
  force :: bool

text \<open>\<^verbatim>\<open>MongoMemoryInstanceProp\<close>: the caller's instance options, also the \<^verbatim>\<open>instance\<close>
  part of the options handed to \<^verbatim>\<open>MongoInstance.run\<close>.\<close>

record MongoMemoryInstanceProp =
  port :: "nat option"
  dbName :: "string option"
  ip :: "string option"
  storageEngine :: "string option"
  replSet :: "string option"
  dbPath :: "string option"
  args :: "string list option"
  auth :: "bool option"

type_synonym MongoBinaryOpts = "(string \<times> string) list"
type_synonym SpawnOptions = "(string \<times> string) list"

record MongodOpts =
  instanceOpts :: MongoMemoryInstanceProp
  binary :: "MongoBinaryOpts option"
  spawn :: "SpawnOptions option"

text \<open>\<^verbatim>\<open>tmp.DirResult\<close>: the directory's name; its \<^verbatim>\<open>removeCallback\<close> is the event
  \<open>RemoveCallback\<close> below.\<close>

record DirResult =
  name :: string

text \<open>A handle of a launched process (\<^verbatim>\<open>MongoInstance\<close>).\<close>

type_synonym MongoInstance = nat

record StartupInstanceData =
  port :: nat
  dbPath :: "string option"
  dbName :: string
  ip :: string
  storageEngine :: string
  replSet :: "string option"
  tmpDir :: "DirResult option"

text \<open>\<^verbatim>\<open>MongoInstanceData extends StartupInstanceData\<close>. Its field \<^verbatim>\<open>instance\<close> is
  \<open>mongoInstance\<close> here, and the field \<^verbatim>\<open>instance\<close> of the two option records is
  \<open>instanceOpts\<close> (the source's name is a keyword of Isabelle). The interface declares the
  process handle as always present; \<^verbatim>\<open>stop\<close> asserts it all the same, so the field is an
  option and the assertion is a branch of \<open>stop\<close>.\<close>

record MongoInstanceData = StartupInstanceData +
  mongoInstance :: "MongoInstance option"

record MongoMemoryServerOpts =
  instanceOpts :: "MongoMemoryInstanceProp option"
  binary :: "MongoBinaryOpts option"
  spawn :: "SpawnOptions option"

datatype event =
    GetPort "nat option"
  | DirSync
  | Readdir string
  | Run MongodOpts
  | Kill MongoInstance
  | RemoveCallback DirResult
  | Warn string
  | Connect string
  | Command string CreateUserMongoDB
  | Close
  | Write_instanceInfo "MongoInstanceData option"
  | Write_state MongoMemoryServerStateEnum
  | Emit MongoMemoryServerStateEnum

text \<open>
  The collaborators, none of which is code of this file. Each field answers one call:
  \<open>None\<close> or \<open>False\<close> is a rejection.
  \<^item> \<open>uriTemplate\<close>, \<open>generateDbName\<close>: helpers of \<^verbatim>\<open>util/utils\<close>;
  \<^item> \<open>arraySort\<close>: the host's \<^verbatim>\<open>Array.prototype.sort\<close> with a comparator;
  \<^item> \<open>connect\<close>, \<open>command\<close>, \<open>close\<close>: the \<^verbatim>\<open>mongodb\<close> driver; \<open>command n db doc\<close> is the
    \<open>n\<close>-th command of a \<^verbatim>\<open>createAuth\<close> run, sent to database \<open>db\<close>;
  \<^item> \<open>getPort\<close>, \<open>dirSync\<close>, \<open>readdir\<close>: \<^verbatim>\<open>get-port\<close>, \<^verbatim>\<open>tmp\<close>, \<^verbatim>\<open>fs.promises\<close>;
  \<^item> \<open>run\<close>, \<open>kill\<close>: \<^verbatim>\<open>MongoInstance.run\<close> and \<^verbatim>\<open>instance.kill\<close>;
  \<^item> \<open>debugEnabled\<close>: \<^verbatim>\<open>debug.enabled('MongoMS:MongoMemoryServer')\<close>.
\<close>

record World =
  uriTemplate :: "string \<Rightarrow> nat \<Rightarrow> string \<Rightarrow> string"
  generateDbName :: "string option \<Rightarrow> string"
  arraySort :: "(CreateUser \<Rightarrow> CreateUser \<Rightarrow> int) \<Rightarrow> CreateUser list \<Rightarrow> CreateUser list"
  connect :: "string \<Rightarrow> bool"
  command :: "nat \<Rightarrow> string \<Rightarrow> CreateUserMongoDB \<Rightarrow> bool"
  close :: bool
  getPort :: "nat option \<Rightarrow> nat option"
  dirSync :: "DirResult option"
  readdir :: "string \<Rightarrow> string list option"
  run :: "MongodOpts \<Rightarrow> MongoInstance option"
  kill :: "MongoInstance \<Rightarrow> bool"
  debugEnabled :: bool

section \<open>The host's sort\<close>

text \<open>
  \<^verbatim>\<open>Array.prototype.sort\<close> belongs to the JavaScript engine. The general theorems below
  take it as the parameter \<open>arraySort\<close>; the concrete runs use the two algorithms Node has
  shipped for short arrays. \<open>ArrayTimSort\<close> is V8's TimSort as it runs on fewer than 64
  elements (one run: the leading ascending or strictly descending run, reversed when
  descending, then binary insertion of the rest); the comparator is called with the
  later element first. \<open>InsertionSort\<close> is the insertion sort of the older engines
  (arrays of at most 10 elements), which calls the comparator with the earlier element
  first.
\<close>

fun runPrefix :: "('a \<Rightarrow> 'a \<Rightarrow> int) \<Rightarrow> bool \<Rightarrow> 'a \<Rightarrow> 'a list \<Rightarrow> 'a list \<times> 'a list" where
  "runPrefix cmp desc prev [] = ([], [])"
| "runPrefix cmp desc prev (cur # rest) =
     (let order = cmp cur prev in
      if (if desc then order \<ge> 0 else order < 0) then ([], cur # rest)
      else (case runPrefix cmp desc cur rest of (r, rest') \<Rightarrow> (cur # r, rest')))"

fun CountAndMakeRun :: "('a \<Rightarrow> 'a \<Rightarrow> int) \<Rightarrow> 'a list \<Rightarrow> 'a list \<times> 'a list" where
  "CountAndMakeRun cmp (x0 # x1 # rest) =
     (let desc = cmp x1 x0 < 0 in
      case runPrefix cmp desc x1 rest of
        (r, rest') \<Rightarrow> ((if desc then rev (x0 # x1 # r) else x0 # x1 # r), rest'))"
| "CountAndMakeRun cmp xs = (xs, [])"

function binarySearch :: "('a \<Rightarrow> 'a \<Rightarrow> int) \<Rightarrow> 'a \<Rightarrow> 'a list \<Rightarrow> nat \<Rightarrow> nat \<Rightarrow> nat" where
  "binarySearch cmp pivot ws left right =
     (if left < right then
        (let mid = left + (right - left) div 2 in
         if cmp pivot (ws ! mid) < 0 then binarySearch cmp pivot ws left mid
         else binarySearch cmp pivot ws (mid + 1) right)
      else left)"
  by pat_completeness auto
termination
  by (relation "measure (\<lambda>(cmp, pivot, ws, left, right). right - left)") auto

fun BinaryInsertionSort :: "('a \<Rightarrow> 'a \<Rightarrow> int) \<Rightarrow> 'a list \<Rightarrow> 'a list \<Rightarrow> 'a list" where
  "BinaryInsertionSort cmp ws [] = ws"
| "BinaryInsertionSort cmp ws (pivot # rest) =
     (let left = binarySearch cmp pivot ws 0 (length ws) in
      BinaryInsertionSort cmp (take left ws @ pivot # drop left ws) rest)"

definition ArrayTimSort :: "('a \<Rightarrow> 'a \<Rightarrow> int) \<Rightarrow> 'a list \<Rightarrow> 'a list" where
  "ArrayTimSort cmp xs =
     (if length xs < 2 then xs
      else case CountAndMakeRun cmp xs of (r, rest) \<Rightarrow> BinaryInsertionSort cmp r rest)"

text \<open>\<open>shiftIn cmp element front\<close>: \<open>front\<close> holds the sorted part nearest element
  first; elements comparing greater than \<open>element\<close> move one place to the right.\<close>

fun shiftIn :: "('a \<Rightarrow> 'a \<Rightarrow> int) \<Rightarrow> 'a \<Rightarrow> 'a list \<Rightarrow> 'a list" where
  "shiftIn cmp element [] = [element]"
| "shiftIn cmp element (t # front) =
     (if cmp t element > 0 then t # shiftIn cmp element front
      else element # t # front)"

definition InsertionSort :: "('a \<Rightarrow> 'a \<Rightarrow> int) \<Rightarrow> 'a list \<Rightarrow> 'a list" where
  "InsertionSort cmp xs = rev (foldl (\<lambda>front element. shiftIn cmp element front) [] xs)"

section \<open>createAuth\<close>

text \<open>The comparator handed to \<^verbatim>\<open>extraUsers.sort\<close>.\<close>

definition sortCompare :: "CreateUser \<Rightarrow> CreateUser \<Rightarrow> int" where
  "sortCompare a b =
     (if database a = Some ''admin'' then - 1
      else if database a = database b then 0 else 1)"

text \<open>The command document of the root user. The password is the literal of the
  source.\<close>

definition rootCommand :: "AutomaticAuth \<Rightarrow> CreateUserMongoDB" where
  "rootCommand a =
     \<lparr> createUser = customRootName a,
       pwd = ''rootuser'',
       customData = Some [(''createBy'', ''mongodb-memory-server''), (''as'', ''ROOTUSER'')],
       roles = [RoleName ''root''],
       mechanisms = Some [''SCRAM-SHA-256''],
       authenticationRestrictions = None,
       digestPassword = None \<rparr>"

text \<open>The assignment \<^verbatim>\<open>user.database = isNullOrUndefined(user.database) ? 'admin' : user.database\<close>.\<close>

definition setDatabase :: "CreateUser \<Rightarrow> CreateUser" where
  "setDatabase user =
     user\<lparr> database := Some (case database user of None \<Rightarrow> ''admin'' | Some d \<Rightarrow> d) \<rparr>"

text \<open>The command document of an extra user.\<close>

definition userCommand :: "CreateUser \<Rightarrow> CreateUserMongoDB" where
  "userCommand user =
     \<lparr> createUser = createUser user,
       pwd = pwd user,
       customData = Some (case customData user of None \<Rightarrow> [] | Some c \<Rightarrow> c),
       roles = roles user,
       mechanisms = Some (case mechanisms user of None \<Rightarrow> [''SCRAM-SHA-256''] | Some m \<Rightarrow> m),
       authenticationRestrictions =
         Some (case authenticationRestrictions user of None \<Rightarrow> [] | Some r \<Rightarrow> r),
       digestPassword = Some (case digestPassword user of None \<Rightarrow> True | Some d \<Rightarrow> d) \<rparr>"

text \<open>
  The loop \<^verbatim>\<open>for (const user of this.auth.extraUsers)\<close>. \<open>n\<close> counts the commands sent
  so far, \<open>databaseName\<close> is \<^verbatim>\<open>db.databaseName\<close>. The result is the events, the array as
  the loop leaves it (each visited user written to), and the error that ended the loop.
\<close>

fun createUsers ::
  "World \<Rightarrow> nat \<Rightarrow> string \<Rightarrow> CreateUser list \<Rightarrow> event list \<times> CreateUser list \<times> error option"
where
  "createUsers w n databaseName [] = ([], [], None)"
| "createUsers w n databaseName (user # rest) =
     (let user' = setDatabase user;
          d = (case database user' of None \<Rightarrow> ''admin'' | Some d \<Rightarrow> d);
          databaseName' = (if d \<noteq> databaseName then d else databaseName)
      in if command w n databaseName' (userCommand user') then
           (case createUsers w (Suc n) databaseName' rest of
              (evs, users, r) \<Rightarrow> (Command databaseName' (userCommand user') # evs, user' # users, r))
         else ([Command databaseName' (userCommand user')], user' # rest, Some (CommandFailed n)))"

text \<open>
  \<^verbatim>\<open>createAuth(data)\<close>: the events, \<^verbatim>\<open>this.auth\<close> after the call, and the error if the
  promise rejects.
\<close>

definition createAuth ::
  "World \<Rightarrow> AutomaticAuth option \<Rightarrow> StartupInstanceData
     \<Rightarrow> event list \<times> AutomaticAuth option \<times> error option"
where
  "createAuth w this_auth data =
     (case this_auth of
        None \<Rightarrow> ([], None, Some (Error ''\"createAuth\" got called, but \"this.auth\" is undefined!''))
      | Some a \<Rightarrow>
          (let uri = uriTemplate w (StartupInstanceData.ip data) (StartupInstanceData.port data) ''admin'' in
           if \<not> connect w uri then ([Connect uri], Some a, Some ConnectFailed)
           else if \<not> command w 0 ''admin'' (rootCommand a) then
             ([Connect uri, Command ''admin'' (rootCommand a)], Some a, Some (CommandFailed 0))
           else if length (extraUsers a) > 0 then
             (let sortedUsers = arraySort w sortCompare (extraUsers a) in
              case createUsers w 1 ''admin'' sortedUsers of
                (evs, users, Some e) \<Rightarrow>
                  ([Connect uri, Command ''admin'' (rootCommand a)] @ evs,
                   Some (a\<lparr> extraUsers := users \<rparr>), Some e)
              | (evs, users, None) \<Rightarrow>
                  ([Connect uri, Command ''admin'' (rootCommand a)] @ evs @ [Close],
                   Some (a\<lparr> extraUsers := users \<rparr>),
                   if close w then None else Some CloseFailed))
           else
             ([Connect uri, Command ''admin'' (rootCommand a), Close], Some a,
              if close w then None else Some CloseFailed)))"

section \<open>The startup protocol\<close>

text \<open>
  The class. \<open>instanceInfo\<close> and \<open>state\<close> are the fields \<^verbatim>\<open>_instanceInfo\<close> and \<^verbatim>\<open>_state\<close>.
  \<open>onceListeners\<close> are the callers of \<^verbatim>\<open>ensureInstance\<close> waiting on
  \<^verbatim>\<open>this.once(stateChange, ...)\<close>, \<open>settled\<close> records how the promise of each was settled,
  and \<open>inFlight\<close> counts the calls of \<^verbatim>\<open>_startUpInstance\<close> that have begun and not yet
  settled. \<^verbatim>\<open>opts.auth\<close> is read only by the constructor and by a \<^verbatim>\<open>log\<close> call, and is
  left out; \<open>auth\<close> is the resolved \<^verbatim>\<open>this.auth\<close>.
\<close>

datatype outcome = Resolved "MongoInstanceData option" | Rejected error | Pending

record MongoMemoryServer =
  instanceInfo :: "MongoInstanceData option"
  opts :: MongoMemoryServerOpts
  state :: MongoMemoryServerStateEnum
  auth :: "AutomaticAuth option"
  onceListeners :: "nat list"
  settled :: "(nat \<times> outcome) list"
  inFlight :: nat

text \<open>A fresh object: the field initialisers and the constructor, given the options and
  the resolved \<^verbatim>\<open>auth\<close>.\<close>

definition newServer :: "MongoMemoryServerOpts \<Rightarrow> AutomaticAuth option \<Rightarrow> MongoMemoryServer" where
  "newServer options resolvedAuth =
     \<lparr> instanceInfo = None, opts = options, state = new, auth = resolvedAuth,
       onceListeners = [], settled = [], inFlight = 0 \<rparr>"

text \<open>JavaScript truthiness of an optional string: \<^verbatim>\<open>undefined\<close> and \<^verbatim>\<open>''\<close> are falsy.\<close>

definition truthy :: "string option \<Rightarrow> bool" where
  "truthy s = (case s of None \<Rightarrow> False | Some v \<Rightarrow> v \<noteq> [])"

text \<open>\<^verbatim>\<open>{}\<close>, the value of \<^verbatim>\<open>this.opts.instance ?? {}\<close> when no instance options are given.\<close>

definition noInstanceOpts :: MongoMemoryInstanceProp where
  "noInstanceOpts =
     \<lparr> MongoMemoryInstanceProp.port = None,
       MongoMemoryInstanceProp.dbName = None,
       MongoMemoryInstanceProp.ip = None,
       MongoMemoryInstanceProp.storageEngine = None,
       MongoMemoryInstanceProp.replSet = None,
       MongoMemoryInstanceProp.dbPath = None,
       MongoMemoryInstanceProp.args = None,
       MongoMemoryInstanceProp.auth = None \<rparr>"

text \<open>The local constant \<^verbatim>\<open>createAuth\<close> of \<^verbatim>\<open>_startUpInstance\<close>, with the value of the
  variable \<^verbatim>\<open>isNew\<close> at that statement as an argument.\<close>

definition createAuth_flag :: "MongoMemoryInstanceProp \<Rightarrow> AutomaticAuth option \<Rightarrow> bool \<Rightarrow> bool" where
  "createAuth_flag instOpts this_auth isNew =
     (MongoMemoryInstanceProp.auth instOpts = Some True \<and>
      (case this_auth of
         None \<Rightarrow> False
       | Some a \<Rightarrow> \<not> disable a \<and> (force a \<or> isNew) \<and> \<not> truthy (MongoMemoryInstanceProp.replSet instOpts)))"

text \<open>
  The statements from \<^verbatim>\<open>if (!data.dbPath)\<close> to the end of its \<^verbatim>\<open>else\<close>: the events, and
  \<^verbatim>\<open>data\<close> with the value \<^verbatim>\<open>isNew\<close> is left with. No later statement reads \<^verbatim>\<open>isNew\<close>.
\<close>

definition resolveDbPath ::
  "World \<Rightarrow> StartupInstanceData \<Rightarrow> event list \<times> (error + StartupInstanceData \<times> bool)"
where
  "resolveDbPath w data =
     (if \<not> truthy (StartupInstanceData.dbPath data) then
        (case dirSync w of
           None \<Rightarrow> ([DirSync], Inl DirSyncFailed)
         | Some t \<Rightarrow>
             ([DirSync],
              Inr (data\<lparr> tmpDir := Some t, StartupInstanceData.dbPath := Some (name t) \<rparr>, True)))
      else
        (let path = (case StartupInstanceData.dbPath data of None \<Rightarrow> [] | Some p \<Rightarrow> p) in
         case readdir w path of
           None \<Rightarrow> ([Readdir path], Inl PathUnreadable)
         | Some files \<Rightarrow> ([Readdir path], Inr (data, length files > 0))))"

text \<open>\<^verbatim>\<open>{ ...data, dbPath: data.dbPath as string, instance: instance }\<close>.\<close>

definition instanceData :: "StartupInstanceData \<Rightarrow> MongoInstance \<Rightarrow> MongoInstanceData" where
  "instanceData data i =
     \<lparr> port = StartupInstanceData.port data,
       dbPath = StartupInstanceData.dbPath data,
       dbName = StartupInstanceData.dbName data,
       ip = StartupInstanceData.ip data,
       storageEngine = StartupInstanceData.storageEngine data,
       replSet = StartupInstanceData.replSet data,
       tmpDir = tmpDir data,
       mongoInstance = Some i \<rparr>"

text \<open>The literal \<^verbatim>\<open>mongodOpts\<close>, with the value of the constant \<^verbatim>\<open>createAuth\<close>.\<close>

definition mongodOpts ::
  "MongoMemoryServerOpts \<Rightarrow> MongoMemoryInstanceProp \<Rightarrow> StartupInstanceData \<Rightarrow> bool \<Rightarrow> MongodOpts"
where
  "mongodOpts options instOpts data flag =
     \<lparr> MongodOpts.instanceOpts =
         \<lparr> MongoMemoryInstanceProp.port = Some (StartupInstanceData.port data),
           MongoMemoryInstanceProp.dbName = None,
           MongoMemoryInstanceProp.ip = Some (StartupInstanceData.ip data),
           MongoMemoryInstanceProp.storageEngine = Some (StartupInstanceData.storageEngine data),
           MongoMemoryInstanceProp.replSet = StartupInstanceData.replSet data,
           MongoMemoryInstanceProp.dbPath = StartupInstanceData.dbPath data,
           MongoMemoryInstanceProp.args = args instOpts,
           MongoMemoryInstanceProp.auth =
             (if flag then Some False else MongoMemoryInstanceProp.auth instOpts) \<rparr>,
       MongodOpts.binary = MongoMemoryServerOpts.binary options,
       MongodOpts.spawn = MongoMemoryServerOpts.spawn options \<rparr>"

text \<open>The options of the second launch:
  \<^verbatim>\<open>{ ...mongodOpts, instance: { ...mongodOpts.instance, auth: instOpts.auth } }\<close>.\<close>

definition authOpts :: "MongodOpts \<Rightarrow> MongoMemoryInstanceProp \<Rightarrow> MongodOpts" where
  "authOpts mo instOpts =
     mo\<lparr> MongodOpts.instanceOpts :=
           (MongodOpts.instanceOpts mo)
             \<lparr> MongoMemoryInstanceProp.auth := MongoMemoryInstanceProp.auth instOpts \<rparr> \<rparr>"

definition ephemeralWarning :: string where
  "ephemeralWarning = ''Not Restarting MongoInstance for Auth'' @ [CHR 0x0A] @
     ''Storage engine is ephemeralForTest, which does not write data on shutdown, and mongodb does not allow changeing \"auth\" runtime''"

text \<open>The statements from \<^verbatim>\<open>const mongodOpts\<close> to the \<^verbatim>\<open>return\<close>.\<close>

definition launch ::
  "World \<Rightarrow> MongoMemoryServer \<Rightarrow> MongoMemoryInstanceProp \<Rightarrow> bool \<Rightarrow> StartupInstanceData
     \<Rightarrow> event list \<times> AutomaticAuth option \<times> (error + MongoInstanceData)"
where
  "launch w this instOpts flag data =
     (let mo = mongodOpts (opts this) instOpts data flag in
      case run w mo of
        None \<Rightarrow> ([Run mo], MongoMemoryServer.auth this, Inl LaunchFailed)
      | Some i \<Rightarrow>
          if MongoMemoryServer.auth this \<noteq> None \<and> flag then
            (case createAuth w (MongoMemoryServer.auth this) data of
               (evs, auth', Some e) \<Rightarrow> (Run mo # evs, auth', Inl e)
             | (evs, auth', None) \<Rightarrow>
                 if StartupInstanceData.storageEngine data \<noteq> ''ephemeralForTest'' then
                   (if \<not> kill w i then (Run mo # evs @ [Kill i], auth', Inl KillFailed)
                    else
                      (case run w (authOpts mo instOpts) of
                         None \<Rightarrow>
                           (Run mo # evs @ [Kill i, Run (authOpts mo instOpts)], auth',
                            Inl LaunchFailed)
                       | Some i2 \<Rightarrow>
                           (Run mo # evs @ [Kill i, Run (authOpts mo instOpts)], auth',
                            Inr (instanceData data i2))))
                 else (Run mo # evs @ [Warn ephemeralWarning], auth', Inr (instanceData data i)))
          else ([Run mo], MongoMemoryServer.auth this, Inr (instanceData data i)))"

text \<open>
  \<^verbatim>\<open>_startUpInstance()\<close>: the events, \<^verbatim>\<open>this.auth\<close> afterwards (\<^verbatim>\<open>createAuth\<close> writes to
  it), and the data or the error. \<^verbatim>\<open>isNew\<close> is \<^verbatim>\<open>true\<close> where the constant \<^verbatim>\<open>createAuth\<close>
  is computed; the value \<open>resolveDbPath\<close> leaves it with is read by nothing.
\<close>

definition startUpInstance ::
  "World \<Rightarrow> MongoMemoryServer \<Rightarrow> event list \<times> AutomaticAuth option \<times> (error + MongoInstanceData)"
where
  "startUpInstance w this =
     (let instOpts =
            (case MongoMemoryServerOpts.instanceOpts (opts this) of
               None \<Rightarrow> noInstanceOpts | Some i \<Rightarrow> i);
          isNew = True;
          flag = createAuth_flag instOpts (MongoMemoryServer.auth this) isNew
      in case getPort w (MongoMemoryInstanceProp.port instOpts) of
           None \<Rightarrow>
             ([GetPort (MongoMemoryInstanceProp.port instOpts)], MongoMemoryServer.auth this,
              Inl NoPortAvailable)
         | Some p \<Rightarrow>
             (let data =
                    \<lparr> port = p,
                      dbPath = MongoMemoryInstanceProp.dbPath instOpts,
                      dbName = generateDbName w (MongoMemoryInstanceProp.dbName instOpts),
                      ip = (case MongoMemoryInstanceProp.ip instOpts of
                              None \<Rightarrow> ''127.0.0.1'' | Some a \<Rightarrow> a),
                      storageEngine =
                        (case MongoMemoryInstanceProp.storageEngine instOpts of
                           None \<Rightarrow> ''ephemeralForTest'' | Some e \<Rightarrow> e),
                      replSet = MongoMemoryInstanceProp.replSet instOpts,
                      tmpDir = None \<rparr>
              in case resolveDbPath w data of
                   (evs, Inl e) \<Rightarrow>
                     (GetPort (MongoMemoryInstanceProp.port instOpts) # evs,
                      MongoMemoryServer.auth this, Inl e)
                 | (evs, Inr (data', isNew')) \<Rightarrow>
                     (case launch w this instOpts flag data' of
                        (evs', auth', r) \<Rightarrow>
                          (GetPort (MongoMemoryInstanceProp.port instOpts) # evs @ evs', auth', r))))"

section \<open>The lifecycle\<close>

text \<open>The listener \<^verbatim>\<open>ensureInstance\<close> registers: \<^verbatim>\<open>rej\<close> is called for any state but
  \<^verbatim>\<open>running\<close>, and the \<^verbatim>\<open>res\<close> that follows has no effect on a promise already rejected.\<close>

definition waiterCallback :: "MongoMemoryServer \<Rightarrow> MongoMemoryServerStateEnum \<Rightarrow> outcome" where
  "waiterCallback this st =
     (if st \<noteq> running then
        Rejected (Error (''\"ensureInstance\" waited for \"running\" but got an different state: \"''
                         @ stateName st @ ''\"''))
      else Resolved (instanceInfo this))"

text \<open>\<^verbatim>\<open>stateChange(newState)\<close>: the field is written, then \<^verbatim>\<open>emit\<close> calls every listener
  registered with \<^verbatim>\<open>once\<close> and removes it.\<close>

definition stateChange ::
  "MongoMemoryServerStateEnum \<Rightarrow> MongoMemoryServer \<Rightarrow> event list \<times> MongoMemoryServer"
where
  "stateChange newState this =
     (let this1 = this\<lparr> state := newState \<rparr> in
      ([Write_state newState, Emit newState],
       this1\<lparr> settled := settled this1 @
                  map (\<lambda>c. (c, waiterCallback this1 newState)) (onceListeners this1),
              onceListeners := [] \<rparr>))"

text \<open>\<^verbatim>\<open>start()\<close> up to its \<^verbatim>\<open>await\<close>: the guard, the notification, and the call of
  \<^verbatim>\<open>_startUpInstance\<close>, which is then in flight.\<close>

definition start_call :: "MongoMemoryServer \<Rightarrow> event list \<times> MongoMemoryServer \<times> error option" where
  "start_call this =
     (if instanceInfo this \<noteq> None then
        ([], this,
         Some (Error ''MongoDB instance already in status startup/running/error. Use debug for more info.''))
      else
        (case stateChange starting this of
           (evs, this1) \<Rightarrow> (evs, this1\<lparr> inFlight := Suc (inFlight this1) \<rparr>, None)))"

text \<open>\<^verbatim>\<open>start()\<close> from the moment the promise of \<^verbatim>\<open>_startUpInstance\<close> settles with \<open>r\<close>.\<close>

definition start_resume ::
  "World \<Rightarrow> error + MongoInstanceData \<Rightarrow> MongoMemoryServer
     \<Rightarrow> event list \<times> MongoMemoryServer \<times> (error + bool)"
where
  "start_resume w r this =
     (let this1 = this\<lparr> inFlight := inFlight this - 1 \<rparr> in
      case r of
        Inl err \<Rightarrow>
          ((if \<not> debugEnabled w
            then [Warn ''Starting the instance failed, enable debug for more infomation'']
            else []),
           this1, Inl err)
      | Inr info \<Rightarrow>
          (case stateChange running (this1\<lparr> instanceInfo := Some info \<rparr>) of
             (evs, this2) \<Rightarrow> (Write_instanceInfo (Some info) # evs, this2, Inr True)))"

text \<open>\<^verbatim>\<open>start()\<close> run to its end with no other caller in between.\<close>

definition start ::
  "World \<Rightarrow> MongoMemoryServer \<Rightarrow> event list \<times> MongoMemoryServer \<times> (error + bool)"
where
  "start w this =
     (case start_call this of
        (evs, this1, Some e) \<Rightarrow> (evs, this1, Inl e)
      | (evs1, this1, None) \<Rightarrow>
          (case startUpInstance w this1 of
             (evs2, auth', r) \<Rightarrow>
               (case start_resume w r (this1\<lparr> MongoMemoryServer.auth := auth' \<rparr>) of
                  (evs3, this3, res) \<Rightarrow> (evs1 @ evs2 @ evs3, this3, res))))"

text \<open>\<^verbatim>\<open>stop()\<close>.\<close>

definition stop ::
  "World \<Rightarrow> MongoMemoryServer \<Rightarrow> event list \<times> MongoMemoryServer \<times> (error + bool)"
where
  "stop w this =
     (case instanceInfo this of
        None \<Rightarrow> ([], this, Inr True)
      | Some info \<Rightarrow>
          (case mongoInstance info of
             None \<Rightarrow> ([], this, Inl (Error ''\"instanceInfo.instance\" is undefined!''))
           | Some i \<Rightarrow>
               if \<not> kill w i then ([Kill i], this, Inl KillFailed)
               else
                 (case stateChange stopped (this\<lparr> instanceInfo := None \<rparr>) of
                    (evs, this2) \<Rightarrow>
                      (Kill i #
                       (case tmpDir info of None \<Rightarrow> [] | Some t \<Rightarrow> [RemoveCallback t]) @
                       Write_instanceInfo None # evs,
                       this2, Inr True))))"

text \<open>\<^verbatim>\<open>ensureInstance()\<close> called by \<open>caller\<close>. In state \<^verbatim>\<open>starting\<close> the promise stays
  \<open>Pending\<close> and the caller is registered; \<open>stateChange\<close> settles it. The \<^verbatim>\<open>default\<close> case
  of the \<^verbatim>\<open>switch\<close> has no value of the enum left.\<close>

definition ensureInstance ::
  "World \<Rightarrow> nat \<Rightarrow> MongoMemoryServer \<Rightarrow> event list \<times> MongoMemoryServer \<times> outcome"
where
  "ensureInstance w caller this =
     (case instanceInfo this of
        Some info \<Rightarrow> ([], this, Resolved (Some info))
      | None \<Rightarrow>
          (case state this of
             running \<Rightarrow>
               ([], this,
                Rejected (Error ''MongoMemoryServer \"_state\" is \"running\" but \"instanceInfo\" is undefined!''))
           | starting \<Rightarrow>
               ([], this\<lparr> onceListeners := onceListeners this @ [caller] \<rparr>, Pending)
           | _ \<Rightarrow>
               (case start w this of
                  (evs, this1, Inl e) \<Rightarrow> (evs, this1, Rejected e)
                | (evs, this1, Inr ok) \<Rightarrow>
                    (case instanceInfo this1 of
                       None \<Rightarrow>
                         (evs, this1, Rejected (Error ''Ensure-Instance failed to start an instance!''))
                     | Some info \<Rightarrow> (evs, this1, Resolved (Some info))))))"

section \<open>Concrete inputs\<close>

text \<open>A user with a name and a target database, every optional field unset.\<close>

definition mkUser :: "string \<Rightarrow> string option \<Rightarrow> CreateUser" where
  "mkUser n d =
     \<lparr> createUser = n, pwd = ''pw'', customData = None, roles = [RoleName ''readWrite''],
       mechanisms = None, authenticationRestrictions = None, digestPassword = None,
       database = d \<rparr>"

text \<open>A number in decimal, and a connection string \<^verbatim>\<open>mongodb://host:port/db\<close> for the
  worlds below.\<close>

function showNat :: "nat \<Rightarrow> string" where
  "showNat n =
     (if n < 10 then [''0123456789'' ! n]
      else showNat (n div 10) @ [''0123456789'' ! (n mod 10)])"
  by pat_completeness auto
termination
  by (relation "measure id") auto

declare showNat.simps [simp del]

definition mongoUri :: "string \<Rightarrow> nat \<Rightarrow> string \<Rightarrow> string" where
  "mongoUri host p db = ''mongodb://'' @ host @ '':'' @ showNat p @ ''/'' @ db"

text \<open>
  A world in which every collaborator succeeds: the requested port is free (27017 when
  none is requested), \<^verbatim>\<open>/data\<close> holds one file and every other directory is empty, the
  launch without authentication returns process 1 and the launch with it process 2. The
  variants differ in one collaborator each.
\<close>

definition okWorld :: World where
  "okWorld =
     \<lparr> uriTemplate = mongoUri,
       generateDbName = (\<lambda>d. case d of None \<Rightarrow> ''test'' | Some n \<Rightarrow> n),
       arraySort = ArrayTimSort,
       connect = (\<lambda>uri. True),
       command = (\<lambda>n db doc. True),
       close = True,
       getPort = (\<lambda>p. case p of None \<Rightarrow> Some 27017 | Some n \<Rightarrow> Some n),
       dirSync = Some \<lparr> name = ''/tmp/mongo-mem-1'' \<rparr>,
       readdir = (\<lambda>p. if p = ''/data'' then Some [''WiredTiger''] else Some []),
       run = (\<lambda>mo. Some (if MongoMemoryInstanceProp.auth (MongodOpts.instanceOpts mo) = Some True
                           then 2 else 1)),
       kill = (\<lambda>i. True),
       debugEnabled = False \<rparr>"

definition legacyWorld :: World where
  "legacyWorld = okWorld\<lparr> arraySort := InsertionSort \<rparr>"

definition commandFailsWorld :: World where
  "commandFailsWorld = okWorld\<lparr> command := (\<lambda>n db doc. n \<noteq> 1) \<rparr>"

definition connectFailsWorld :: World where
  "connectFailsWorld = okWorld\<lparr> connect := (\<lambda>uri. False) \<rparr>"

definition secondUserFailsWorld :: World where
  "secondUserFailsWorld = okWorld\<lparr> command := (\<lambda>n db doc. n \<noteq> 2) \<rparr>"

definition rootOnly :: AutomaticAuth where
  "rootOnly =
     \<lparr> disable = False, extraUsers = [], customRootName = ''mongodb-memory-server-root'',
       customRootPwd = ''rootuser'', force = False \<rparr>"

definition exampleData :: StartupInstanceData where
  "exampleData =
     \<lparr> port = 27017, dbPath = Some ''/tmp/mongo-mem-1'', dbName = ''test'', ip = ''127.0.0.1'',
       storageEngine = ''wiredTiger'', replSet = None,
       tmpDir = Some \<lparr> name = ''/tmp/mongo-mem-1'' \<rparr> \<rparr>"

text \<open>Instance options: authentication wanted, a storage engine, a data directory.\<close>

definition authInstance :: "string \<Rightarrow> string option \<Rightarrow> MongoMemoryInstanceProp" where
  "authInstance engine path =
     noInstanceOpts\<lparr> MongoMemoryInstanceProp.storageEngine := Some engine,
                     MongoMemoryInstanceProp.dbPath := path,
                     MongoMemoryInstanceProp.auth := Some True \<rparr>"

definition serverWith :: "MongoMemoryInstanceProp \<Rightarrow> AutomaticAuth option \<Rightarrow> MongoMemoryServer" where
  "serverWith instOpts resolvedAuth =
     newServer \<lparr> instanceOpts = Some instOpts, binary = None, spawn = None \<rparr> resolvedAuth"

text \<open>A server that is running the instance described by \<open>exampleData\<close>.\<close>

definition runningServer :: MongoMemoryServer where
  "runningServer =
     (serverWith (authInstance ''wiredTiger'' None) (Some rootOnly))
       \<lparr> instanceInfo := Some (instanceData exampleData 2), state := running \<rparr>"

text \<open>A server in state \<^verbatim>\<open>starting\<close> on which caller 7 of \<^verbatim>\<open>ensureInstance\<close> waits.\<close>

definition freshServer :: MongoMemoryServer where
  "freshServer = serverWith (authInstance ''wiredTiger'' None) (Some rootOnly)"

definition waitingServer :: MongoMemoryServer where
  "waitingServer = freshServer\<lparr> state := starting, onceListeners := [7], inFlight := 1 \<rparr>"

text \<open>Worlds in which the kill, or every launch, fails; a server on the default storage
  engine; a server with no options at all.\<close>

definition killFailsWorld :: World where
  "killFailsWorld = okWorld\<lparr> kill := (\<lambda>i. False) \<rparr>"

definition launchFailsWorld :: World where
  "launchFailsWorld = okWorld\<lparr> run := (\<lambda>mo. None) \<rparr>"

definition ephemeralServer :: MongoMemoryServer where
  "ephemeralServer = serverWith (authInstance ''ephemeralForTest'' None) (Some rootOnly)"

definition plainServer :: MongoMemoryServer where
  "plainServer = serverWith noInstanceOpts None"

text \<open>Three extra users: one for database \<^verbatim>\<open>foo\<close>, one with no database, one for
  \<^verbatim>\<open>bar\<close>; and two extra users both for \<^verbatim>\<open>admin\<close>.\<close>

definition threeUsers :: AutomaticAuth where
  "threeUsers =
     rootOnly\<lparr> extraUsers :=
       [mkUser ''u1'' (Some ''foo''), mkUser ''u2'' None, mkUser ''u3'' (Some ''bar'')] \<rparr>"

definition twoAdmins :: AutomaticAuth where
  "twoAdmins =
     rootOnly\<lparr> extraUsers := [mkUser ''u1'' (Some ''admin''), mkUser ''u2'' (Some ''admin'')] \<rparr>"

text \<open>A server given the data directory \<^verbatim>\<open>/data\<close>, which holds a file in \<open>okWorld\<close>.\<close>

definition populatedDirServer :: MongoMemoryServer where
  "populatedDirServer = serverWith (authInstance ''wiredTiger'' (Some ''/data'')) (Some rootOnly)"

text \<open>The \<^verbatim>\<open>createUser\<close> commands of a trace, in order: database and user name.\<close>

fun commandLog :: "event list \<Rightarrow> (string \<times> string) list" where
  "commandLog [] = []"
| "commandLog (Command db doc # evs) = (db, createUser doc) # commandLog evs"
| "commandLog (e # evs) = commandLog evs"

text \<open>
  For the statements about the loop of \<^verbatim>\<open>createAuth\<close>: the database a user is created in
  (the value the loop assigns to \<^verbatim>\<open>user.database\<close>), the command the loop sends for a
  user, and the driver's answer to the command for the \<open>i\<close>-th user of an array (the root
  user's command is number 0, so this one is number \<open>i + 1\<close>).
\<close>

definition targetDatabase :: "CreateUser \<Rightarrow> string" where
  "targetDatabase user = (case database user of None \<Rightarrow> ''admin'' | Some d \<Rightarrow> d)"

definition userEvent :: "CreateUser \<Rightarrow> event" where
  "userEvent user = Command (targetDatabase user) (userCommand (setDatabase user))"

definition userAccepted :: "World \<Rightarrow> CreateUser list \<Rightarrow> nat \<Rightarrow> bool" where
  "userAccepted w us i =
     command w (Suc i) (targetDatabase (us ! i)) (userCommand (setDatabase (us ! i)))"

text \<open>The options of the first launch in a trace, and the events that come from the
  database driver.\<close>

fun firstRun :: "event list \<Rightarrow> MongodOpts option" where
  "firstRun [] = None"
| "firstRun (Run mo # evs) = Some mo"
| "firstRun (e # evs) = firstRun evs"

fun driverEvent :: "event \<Rightarrow> bool" where
  "driverEvent (Connect uri) = True"
| "driverEvent (Command db doc) = True"
| "driverEvent Close = True"
| "driverEvent e = False"

section \<open>Lifecycle: start, stop, ensureInstance\<close>

lemma stateChange_fields:
  "stateChange st this = (evs, this') \<Longrightarrow>
     evs = [Write_state st, Emit st] \<and> state this' = st \<and> instanceInfo this' = instanceInfo this \<and>
     onceListeners this' = [] \<and> inFlight this' = inFlight this \<and>
     opts this' = opts this \<and> MongoMemoryServer.auth this' = MongoMemoryServer.auth this \<and>
     settled this' = settled this @
       map (\<lambda>c. (c, waiterCallback (this\<lparr> state := st \<rparr>) st)) (onceListeners this)"
  by (auto simp: stateChange_def Let_def)

lemma start_success_info:
  "start w this = (evs, this1, Inr ok) \<Longrightarrow> instanceInfo this1 \<noteq> None"
  by (auto simp: start_def start_call_def start_resume_def stateChange_def Let_def
           split: if_splits prod.splits option.splits sum.splits)

text \<open>
  C6. While \<^verbatim>\<open>_instanceInfo\<close> is present, \<^verbatim>\<open>start()\<close> rejects at once with the double-start
  error: the object is returned as it was (state and instance data untouched) and the
  trace is empty (no write, no notification). The same holds of the part of \<^verbatim>\<open>start()\<close>
  before its \<^verbatim>\<open>await\<close>.
\<close>

theorem start_already_running:
  "instanceInfo this \<noteq> None \<Longrightarrow>
     start_call this = ([], this,
        Some (Error ''MongoDB instance already in status startup/running/error. Use debug for more info.'')) \<and>
     start w this = ([], this,
        Inl (Error ''MongoDB instance already in status startup/running/error. Use debug for more info.''))"
  by (simp add: start_def start_call_def)

theorem start_already_running_witness:
  "instanceInfo runningServer \<noteq> None \<and>
   start okWorld runningServer = ([], runningServer,
        Inl (Error ''MongoDB instance already in status startup/running/error. Use debug for more info.''))"
  using start_already_running [of runningServer okWorld]
  by (simp add: runningServer_def)

text \<open>
  C5. \<^verbatim>\<open>stop()\<close> with no instance data returns \<^verbatim>\<open>true\<close> and does nothing. With instance
  data it kills the process first; a failed kill is the result of \<^verbatim>\<open>stop()\<close> and nothing
  else happens. After a successful kill it calls the temporary directory's
  \<^verbatim>\<open>removeCallback\<close> if there is one, then clears the instance data, then writes and
  announces \<^verbatim>\<open>stopped\<close>, in this order. A second \<^verbatim>\<open>stop()\<close> right after does nothing, so
  the two calls together release the directory once.
\<close>

theorem stop_teardown:
  assumes "stop w this = (evs1, this1, r1)" and "stop w this1 = (evs2, this2, r2)"
  shows "(instanceInfo this = None \<longrightarrow> evs1 = [] \<and> this1 = this \<and> r1 = Inr True) \<and>
    (\<forall>info i. instanceInfo this = Some info \<and> mongoInstance info = Some i \<longrightarrow>
       (\<not> kill w i \<longrightarrow> evs1 = [Kill i] \<and> this1 = this \<and> r1 = Inl KillFailed) \<and>
       (kill w i \<longrightarrow>
          evs1 = Kill i # (case tmpDir info of None \<Rightarrow> [] | Some t \<Rightarrow> [RemoveCallback t]) @
                   [Write_instanceInfo None, Write_state stopped, Emit stopped] \<and>
          r1 = Inr True \<and> instanceInfo this1 = None \<and> state this1 = stopped \<and>
          evs2 = [] \<and> this2 = this1 \<and> r2 = Inr True \<and>
          (\<forall>t. tmpDir info = Some t \<longrightarrow> count_list (evs1 @ evs2) (RemoveCallback t) = 1) \<and>
          (\<forall>t. RemoveCallback t \<in> set (evs1 @ evs2) \<longrightarrow> tmpDir info = Some t)))"
  using assms
  by (auto simp: stop_def stateChange_def Let_def split: option.splits if_splits)

theorem stop_teardown_witness:
  "instanceInfo runningServer = Some (instanceData exampleData 2) \<and>
   mongoInstance (instanceData exampleData 2) = Some 2 \<and> kill okWorld 2 \<and>
   fst (stop okWorld runningServer) =
     [Kill 2, RemoveCallback \<lparr> name = ''/tmp/mongo-mem-1'' \<rparr>,
      Write_instanceInfo None, Write_state stopped, Emit stopped] \<and>
   stop okWorld (fst (snd (stop okWorld runningServer))) =
     ([], fst (snd (stop okWorld runningServer)), Inr True) \<and>
   \<not> kill killFailsWorld 2 \<and>
   stop killFailsWorld runningServer = ([Kill 2], runningServer, Inl KillFailed)"
proof -
  have info: "instanceInfo runningServer = Some (instanceData exampleData 2)"
    by (simp add: runningServer_def)
  have inst: "mongoInstance (instanceData exampleData 2) = Some 2"
    by (simp add: instanceData_def)
  have tmp: "tmpDir (instanceData exampleData 2) = Some \<lparr> name = ''/tmp/mongo-mem-1'' \<rparr>"
    by (simp add: instanceData_def exampleData_def)
  have ok: "kill okWorld 2"
    by (simp add: okWorld_def)
  have ko: "\<not> kill killFailsWorld 2"
    by (simp add: killFailsWorld_def)
  obtain e1 s1 r1 where a: "stop okWorld runningServer = (e1, s1, r1)"
    by (cases "stop okWorld runningServer") auto
  obtain e2 s2 r2 where b: "stop okWorld s1 = (e2, s2, r2)"
    by (cases "stop okWorld s1") auto
  from stop_teardown [OF a b] info inst ok
  have "e1 = Kill 2 # (case tmpDir (instanceData exampleData 2) of None \<Rightarrow> []
                        | Some t \<Rightarrow> [RemoveCallback t]) @
               [Write_instanceInfo None, Write_state stopped, Emit stopped] \<and>
        e2 = [] \<and> s2 = s1 \<and> r2 = Inr True"
    by blast
  with a b tmp have 1: "fst (stop okWorld runningServer) =
       [Kill 2, RemoveCallback \<lparr> name = ''/tmp/mongo-mem-1'' \<rparr>,
        Write_instanceInfo None, Write_state stopped, Emit stopped] \<and>
     stop okWorld (fst (snd (stop okWorld runningServer))) =
       ([], fst (snd (stop okWorld runningServer)), Inr True)"
    by simp
  obtain f1 t1 q1 where c: "stop killFailsWorld runningServer = (f1, t1, q1)"
    by (cases "stop killFailsWorld runningServer") auto
  obtain f2 t2 q2 where d: "stop killFailsWorld t1 = (f2, t2, q2)"
    by (cases "stop killFailsWorld t1") auto
  from stop_teardown [OF c d] info inst ko
  have "f1 = [Kill 2] \<and> t1 = runningServer \<and> q1 = Inl KillFailed"
    by blast
  with c have 2: "stop killFailsWorld runningServer = ([Kill 2], runningServer, Inl KillFailed)"
    by simp
  from info inst ok ko 1 2 show ?thesis by blast
qed

text \<open>
  C3. \<^verbatim>\<open>ensureInstance()\<close>:
  \<^item> with instance data present it returns that data, with no event;
  \<^item> in state \<^verbatim>\<open>running\<close> without instance data it rejects with the consistency error;
  \<^item> in state \<^verbatim>\<open>new\<close> or \<^verbatim>\<open>stopped\<close> it runs \<^verbatim>\<open>start()\<close>: a failure of \<^verbatim>\<open>start()\<close> is its
    failure, and after a success it returns the instance data \<^verbatim>\<open>start()\<close> has stored;
  \<^item> in state \<^verbatim>\<open>starting\<close> it starts nothing (no event, the promise is pending) and
    registers the caller as a one-shot listener;
  \<^item> the next state change removes every registered caller and settles each of them, and
    nothing else: resolved with the instance data if the new state is \<^verbatim>\<open>running\<close>, rejected
    with the message that ends in the name of the new state otherwise (the message is
    written out for each state);
  \<^item> the state change \<^verbatim>\<open>start()\<close> makes after a successful startup resolves every waiting
    caller with the data of that startup;
  \<^item> a further \<^verbatim>\<open>start()\<close> that passes the guard rejects every waiting caller with the
    message for \<^verbatim>\<open>starting\<close>.
\<close>

theorem ensureInstance_contract:
  "(\<forall>info. instanceInfo this = Some info \<longrightarrow>
      ensureInstance w c this = ([], this, Resolved (Some info))) \<and>
   (instanceInfo this = None \<and> state this = running \<longrightarrow>
      ensureInstance w c this =
        ([], this,
         Rejected (Error ''MongoMemoryServer \"_state\" is \"running\" but \"instanceInfo\" is undefined!''))) \<and>
   (instanceInfo this = None \<and> (state this = new \<or> state this = stopped) \<longrightarrow>
      (\<forall>evs this1 e. start w this = (evs, this1, Inl e) \<longrightarrow>
          ensureInstance w c this = (evs, this1, Rejected e)) \<and>
      (\<forall>evs this1 ok. start w this = (evs, this1, Inr ok) \<longrightarrow>
          instanceInfo this1 \<noteq> None \<and>
          ensureInstance w c this = (evs, this1, Resolved (instanceInfo this1)))) \<and>
   (instanceInfo this = None \<and> state this = starting \<longrightarrow>
      ensureInstance w c this =
        ([], this\<lparr> onceListeners := onceListeners this @ [c] \<rparr>, Pending)) \<and>
   (\<forall>s evs s'. stateChange running s = (evs, s') \<longrightarrow>
      onceListeners s' = [] \<and>
      settled s' = settled s @ map (\<lambda>c. (c, Resolved (instanceInfo s))) (onceListeners s)) \<and>
   (\<forall>s evs s'. stateChange starting s = (evs, s') \<longrightarrow>
      onceListeners s' = [] \<and>
      settled s' = settled s @
        map (\<lambda>c. (c, Rejected (Error
               ''\"ensureInstance\" waited for \"running\" but got an different state: \"starting\"'')))
          (onceListeners s)) \<and>
   (\<forall>s evs s'. stateChange stopped s = (evs, s') \<longrightarrow>
      onceListeners s' = [] \<and>
      settled s' = settled s @
        map (\<lambda>c. (c, Rejected (Error
               ''\"ensureInstance\" waited for \"running\" but got an different state: \"stopped\"'')))
          (onceListeners s)) \<and>
   (\<forall>s evs s'. stateChange new s = (evs, s') \<longrightarrow>
      onceListeners s' = [] \<and>
      settled s' = settled s @
        map (\<lambda>c. (c, Rejected (Error
               ''\"ensureInstance\" waited for \"running\" but got an different state: \"new\"'')))
          (onceListeners s)) \<and>
   (\<forall>s info evs s' r. start_resume w (Inr info) s = (evs, s', r) \<longrightarrow>
      onceListeners s' = [] \<and> instanceInfo s' = Some info \<and>
      settled s' = settled s @ map (\<lambda>c. (c, Resolved (Some info))) (onceListeners s)) \<and>
   (\<forall>s evs s'. instanceInfo s = None \<and> start_call s = (evs, s', None) \<longrightarrow>
      onceListeners s' = [] \<and>
      settled s' = settled s @
        map (\<lambda>c. (c, Rejected (Error
               ''\"ensureInstance\" waited for \"running\" but got an different state: \"starting\"'')))
          (onceListeners s))"
proof (intro conjI allI impI)
  fix evs this1 ok
  assume a: "instanceInfo this = None \<and> (state this = new \<or> state this = stopped)"
    and s: "start w this = (evs, this1, Inr ok)"
  from s show i: "instanceInfo this1 \<noteq> None" by (rule start_success_info)
  from a s i show "ensureInstance w c this = (evs, this1, Resolved (instanceInfo this1))"
    by (auto simp: ensureInstance_def)
qed (auto simp: ensureInstance_def stateChange_def start_resume_def start_call_def
          waiterCallback_def Let_def split: prod.splits)

text \<open>The run of \<^verbatim>\<open>start()\<close> on \<open>freshServer\<close> in \<open>okWorld\<close>, in three steps.\<close>

lemma startUp_fresh:
  "startUpInstance okWorld (freshServer\<lparr> state := starting, inFlight := Suc 0 \<rparr>) =
    (fst (startUpInstance okWorld (freshServer\<lparr> state := starting, inFlight := Suc 0 \<rparr>)),
     Some rootOnly, Inr (instanceData exampleData 2))"
  by (simp add: okWorld_def rootOnly_def authInstance_def freshServer_def serverWith_def
        newServer_def noInstanceOpts_def startUpInstance_def createAuth_flag_def truthy_def
        resolveDbPath_def launch_def mongodOpts_def authOpts_def createAuth_def rootCommand_def
        instanceData_def exampleData_def Let_def)

lemma start_call_fresh:
  "start_call freshServer = ([Write_state starting, Emit starting], freshServer\<lparr> state := starting, inFlight := Suc 0 \<rparr>, None)"
  by (simp add: freshServer_def serverWith_def newServer_def start_call_def stateChange_def Let_def)

lemma start_freshServer:
  "snd (start okWorld freshServer) = (runningServer, Inr True)"
  apply (simp add: start_def start_call_fresh)
  apply (subst startUp_fresh)
  apply (simp add: start_resume_def stateChange_def Let_def runningServer_def freshServer_def serverWith_def newServer_def)
  done

lemma start_launch_fails:
  "snd (snd (start launchFailsWorld freshServer)) = Inl LaunchFailed"
  by (simp add: launchFailsWorld_def okWorld_def rootOnly_def authInstance_def freshServer_def
        serverWith_def newServer_def noInstanceOpts_def startUpInstance_def createAuth_flag_def
        truthy_def resolveDbPath_def launch_def mongodOpts_def start_def start_call_def
        start_resume_def stateChange_def Let_def)

theorem ensureInstance_contract_witness:
  "ensureInstance okWorld 7 runningServer = ([], runningServer, Resolved (instanceInfo runningServer)) \<and>
   ensureInstance okWorld 7 (runningServer\<lparr> instanceInfo := None \<rparr>) =
     ([], runningServer\<lparr> instanceInfo := None \<rparr>,
      Rejected (Error ''MongoMemoryServer \"_state\" is \"running\" but \"instanceInfo\" is undefined!'')) \<and>
   snd (ensureInstance okWorld 7 freshServer) = (runningServer, Resolved (instanceInfo runningServer)) \<and>
   ensureInstance okWorld 7 (freshServer\<lparr> state := starting \<rparr>) =
     ([], freshServer\<lparr> state := starting, onceListeners := [7] \<rparr>, Pending) \<and>
   settled (snd (stateChange starting waitingServer)) =
     [(7, Rejected (Error
            ''\"ensureInstance\" waited for \"running\" but got an different state: \"starting\"''))] \<and>
   onceListeners (snd (stateChange starting waitingServer)) = [] \<and>
   settled (fst (snd (start_call waitingServer))) =
     [(7, Rejected (Error
            ''\"ensureInstance\" waited for \"running\" but got an different state: \"starting\"''))] \<and>
   settled (snd (stateChange stopped waitingServer)) =
     [(7, Rejected (Error
            ''\"ensureInstance\" waited for \"running\" but got an different state: \"stopped\"''))] \<and>
   settled (fst (snd (start_resume okWorld (Inr (instanceData exampleData 2)) waitingServer))) =
     [(7, Resolved (Some (instanceData exampleData 2)))] \<and>
   snd (snd (ensureInstance launchFailsWorld 7 freshServer)) = Rejected LaunchFailed"
proof -
  note c = ensureInstance_contract
  have r: "instanceInfo runningServer = Some (instanceData exampleData 2)"
    by (simp add: runningServer_def)
  have 1: "ensureInstance okWorld 7 runningServer = ([], runningServer, Resolved (instanceInfo runningServer))"
    using c [of runningServer okWorld 7, THEN conjunct1] r by simp
  have n: "instanceInfo (runningServer\<lparr> instanceInfo := None \<rparr>) = None \<and>
           state (runningServer\<lparr> instanceInfo := None \<rparr>) = running"
    by (simp add: runningServer_def)
  have 2: "ensureInstance okWorld 7 (runningServer\<lparr> instanceInfo := None \<rparr>) =
     ([], runningServer\<lparr> instanceInfo := None \<rparr>,
      Rejected (Error ''MongoMemoryServer \"_state\" is \"running\" but \"instanceInfo\" is undefined!''))"
    using c [of "runningServer\<lparr> instanceInfo := None \<rparr>" okWorld 7, THEN conjunct2, THEN conjunct1] n by blast
  have f: "instanceInfo freshServer = None \<and> (state freshServer = new \<or> state freshServer = stopped)"
    by (simp add: freshServer_def serverWith_def newServer_def)
  obtain E where s: "start okWorld freshServer = (E, runningServer, Inr True)"
    using start_freshServer by (cases "start okWorld freshServer") auto
  have 3: "snd (ensureInstance okWorld 7 freshServer) = (runningServer, Resolved (instanceInfo runningServer))"
  proof -
    have "ensureInstance okWorld 7 freshServer = (E, runningServer, Resolved (instanceInfo runningServer))"
      using c [of freshServer okWorld 7, THEN conjunct2, THEN conjunct2, THEN conjunct1] f s by blast
    then show ?thesis by simp
  qed
  have g: "instanceInfo (freshServer\<lparr> state := starting \<rparr>) = None \<and>
           state (freshServer\<lparr> state := starting \<rparr>) = starting"
    by (simp add: freshServer_def serverWith_def newServer_def)
  have 4: "ensureInstance okWorld 7 (freshServer\<lparr> state := starting \<rparr>) =
     ([], freshServer\<lparr> state := starting, onceListeners := [7] \<rparr>, Pending)"
    using c [of "freshServer\<lparr> state := starting \<rparr>" okWorld 7, THEN conjunct2, THEN conjunct2, THEN conjunct2, THEN conjunct1] g
    by (simp add: freshServer_def serverWith_def newServer_def)
  have l: "onceListeners waitingServer = [7] \<and> settled waitingServer = [] \<and>
           instanceInfo waitingServer = None"
    by (simp add: waitingServer_def freshServer_def serverWith_def newServer_def)
  obtain e1 s1 where sc: "stateChange starting waitingServer = (e1, s1)"
    by (cases "stateChange starting waitingServer") auto
  have "onceListeners s1 = [] \<and> settled s1 = settled waitingServer @
        map (\<lambda>c. (c, Rejected (Error
               ''\"ensureInstance\" waited for \"running\" but got an different state: \"starting\"'')))
          (onceListeners waitingServer)"
    using c [of waitingServer okWorld 7, THEN conjunct2, THEN conjunct2, THEN conjunct2, THEN conjunct2, THEN conjunct2, THEN conjunct1] sc by blast
  with l sc have 5: "settled (snd (stateChange starting waitingServer)) =
     [(7, Rejected (Error
            ''\"ensureInstance\" waited for \"running\" but got an different state: \"starting\"''))] \<and>
     onceListeners (snd (stateChange starting waitingServer)) = []"
    by simp
  obtain e3 s3 where st: "start_call waitingServer = (e3, s3, None)"
    using l by (cases "start_call waitingServer") (auto simp: start_call_def split: prod.splits)
  have "settled s3 = settled waitingServer @
        map (\<lambda>c. (c, Rejected (Error
               ''\"ensureInstance\" waited for \"running\" but got an different state: \"starting\"'')))
          (onceListeners waitingServer)"
    using c [of waitingServer okWorld 7, THEN conjunct2, THEN conjunct2, THEN conjunct2, THEN conjunct2, THEN conjunct2, THEN conjunct2, THEN conjunct2, THEN conjunct2, THEN conjunct2] st l by blast
  with l st have 6: "settled (fst (snd (start_call waitingServer))) =
     [(7, Rejected (Error
            ''\"ensureInstance\" waited for \"running\" but got an different state: \"starting\"''))]"
    by simp
  obtain e4 s4 where sp: "stateChange stopped waitingServer = (e4, s4)"
    by (cases "stateChange stopped waitingServer") auto
  have "settled s4 = settled waitingServer @
        map (\<lambda>c. (c, Rejected (Error
               ''\"ensureInstance\" waited for \"running\" but got an different state: \"stopped\"'')))
          (onceListeners waitingServer)"
    using c [of waitingServer okWorld 7, THEN conjunct2, THEN conjunct2, THEN conjunct2, THEN conjunct2, THEN conjunct2, THEN conjunct2, THEN conjunct1] sp by blast
  with l sp have 7: "settled (snd (stateChange stopped waitingServer)) =
     [(7, Rejected (Error
            ''\"ensureInstance\" waited for \"running\" but got an different state: \"stopped\"''))]"
    by simp
  obtain e2 s2 r2 where sr: "start_resume okWorld (Inr (instanceData exampleData 2)) waitingServer = (e2, s2, r2)"
    by (cases "start_resume okWorld (Inr (instanceData exampleData 2)) waitingServer") auto
  have "settled s2 = settled waitingServer @
        map (\<lambda>c. (c, Resolved (Some (instanceData exampleData 2)))) (onceListeners waitingServer)"
    using c [of waitingServer okWorld 7, THEN conjunct2, THEN conjunct2, THEN conjunct2, THEN conjunct2, THEN conjunct2, THEN conjunct2, THEN conjunct2, THEN conjunct2, THEN conjunct1] sr by blast
  with l sr have 8: "settled (fst (snd (start_resume okWorld (Inr (instanceData exampleData 2)) waitingServer))) =
     [(7, Resolved (Some (instanceData exampleData 2)))]"
    by simp
  obtain E' s' where sf: "start launchFailsWorld freshServer = (E', s', Inl LaunchFailed)"
    using start_launch_fails by (cases "start launchFailsWorld freshServer") auto
  have 9: "snd (snd (ensureInstance launchFailsWorld 7 freshServer)) = Rejected LaunchFailed"
  proof -
    have "ensureInstance launchFailsWorld 7 freshServer = (E', s', Rejected LaunchFailed)"
      using c [of freshServer launchFailsWorld 7, THEN conjunct2, THEN conjunct2, THEN conjunct1] f sf by blast
    then show ?thesis by simp
  qed
  from 1 2 3 4 5 6 7 8 9 show ?thesis by blast
qed

section \<open>Runs of the code on concrete inputs\<close>

text \<open>
  C1. The caller supplies the data directory \<^verbatim>\<open>/data\<close>, whose listing is not empty, and
  \<^verbatim>\<open>force\<close> is not set; \<^verbatim>\<open>_startUpInstance\<close> lists the directory and still runs
  \<^verbatim>\<open>createAuth\<close>, which creates the root user.
\<close>

theorem bootstrap_on_populated_directory:
  "readdir okWorld ''/data'' = Some [''WiredTiger''] \<and> \<not> force rootOnly \<and>
   MongoMemoryInstanceProp.dbPath (authInstance ''wiredTiger'' (Some ''/data'')) = Some ''/data'' \<and>
   Readdir ''/data'' \<in> set (fst (startUpInstance okWorld populatedDirServer)) \<and>
   commandLog (fst (startUpInstance okWorld populatedDirServer)) =
     [(''admin'', ''mongodb-memory-server-root'')]"
  by (simp add: okWorld_def rootOnly_def authInstance_def populatedDirServer_def serverWith_def
        newServer_def noInstanceOpts_def startUpInstance_def createAuth_flag_def truthy_def
        resolveDbPath_def launch_def mongodOpts_def authOpts_def createAuth_def rootCommand_def
        instanceData_def Let_def)

text \<open>
  C8. With \<^verbatim>\<open>customRootPwd\<close> set to \<^verbatim>\<open>secret\<close>, the root user is created first, with the
  role \<^verbatim>\<open>root\<close>, the mechanism \<^verbatim>\<open>SCRAM-SHA-256\<close> and the configured name, but with the
  password \<^verbatim>\<open>rootuser\<close>.
\<close>

theorem root_password_literal:
  "customRootPwd (rootOnly\<lparr> customRootPwd := ''secret'' \<rparr>) = ''secret'' \<and>
   fst (createAuth okWorld (Some (rootOnly\<lparr> customRootPwd := ''secret'' \<rparr>)) exampleData) =
     [Connect ''mongodb://127.0.0.1:27017/admin'',
      Command ''admin''
        \<lparr> createUser = ''mongodb-memory-server-root'', pwd = ''rootuser'',
          customData = Some [(''createBy'', ''mongodb-memory-server''), (''as'', ''ROOTUSER'')],
          roles = [RoleName ''root''], mechanisms = Some [''SCRAM-SHA-256''],
          authenticationRestrictions = None, digestPassword = None \<rparr>,
      Close]"
  by (simp add: okWorld_def mongoUri_def showNat.simps rootOnly_def exampleData_def
        createAuth_def rootCommand_def Let_def)

text \<open>
  C7. The extra users \<^verbatim>\<open>u1\<close> (database \<^verbatim>\<open>foo\<close>), \<^verbatim>\<open>u2\<close> (no database) and \<^verbatim>\<open>u3\<close>
  (database \<^verbatim>\<open>bar\<close>): under either sort \<^verbatim>\<open>u2\<close>, which is created in \<^verbatim>\<open>admin\<close>, comes
  after a user of another database. Two users of \<^verbatim>\<open>admin\<close> are created in reverse order
  under \<open>ArrayTimSort\<close>.
\<close>

theorem extra_users_order:
  "commandLog (fst (createAuth okWorld (Some threeUsers) exampleData)) =
     [(''admin'', ''mongodb-memory-server-root''), (''foo'', ''u1''), (''admin'', ''u2''),
      (''bar'', ''u3'')] \<and>
   commandLog (fst (createAuth legacyWorld (Some threeUsers) exampleData)) =
     [(''admin'', ''mongodb-memory-server-root''), (''bar'', ''u3''), (''admin'', ''u2''),
      (''foo'', ''u1'')] \<and>
   commandLog (fst (createAuth okWorld (Some twoAdmins) exampleData)) =
     [(''admin'', ''mongodb-memory-server-root''), (''admin'', ''u2''), (''admin'', ''u1'')]"
  by (simp add: okWorld_def legacyWorld_def rootOnly_def threeUsers_def twoAdmins_def mkUser_def
        exampleData_def createAuth_def rootCommand_def userCommand_def setDatabase_def
        sortCompare_def ArrayTimSort_def InsertionSort_def Let_def)

text \<open>
  C2. Two calls of \<^verbatim>\<open>start()\<close>, the second made while the first awaits
  \<^verbatim>\<open>_startUpInstance\<close>: both pass the guard, and two startups are in flight. And two callers
  of \<^verbatim>\<open>ensureInstance()\<close> waiting in state \<^verbatim>\<open>starting\<close>: when the startup fails,
  \<^verbatim>\<open>start()\<close> rejects without a notification, and both callers stay registered with
  their promises unsettled.
\<close>

theorem two_startups_in_flight:
  "(case start_call (serverWith noInstanceOpts None) of
      (evs1, s1, r1) \<Rightarrow>
        (case start_call s1 of
           (evs2, s2, r2) \<Rightarrow>
             r1 = None \<and> inFlight s1 = 1 \<and> state s1 = starting \<and> r2 = None \<and> inFlight s2 = 2)) \<and>
   (case start_call (serverWith noInstanceOpts None) of
      (evs1, s1, r1) \<Rightarrow>
        (case ensureInstance okWorld 1 s1 of
           (evs2, s2, p1) \<Rightarrow>
             (case ensureInstance okWorld 2 s2 of
                (evs3, s3, p2) \<Rightarrow>
                  (case start_resume okWorld (Inl LaunchFailed) s3 of
                     (evs4, s4, r4) \<Rightarrow>
                       p1 = Pending \<and> p2 = Pending \<and> r4 = Inl LaunchFailed \<and> inFlight s4 = 0 \<and>
                       evs4 = [Warn ''Starting the instance failed, enable debug for more infomation''] \<and>
                       onceListeners s4 = [1, 2] \<and> settled s4 = []))))"
  by (simp add: okWorld_def serverWith_def newServer_def start_call_def stateChange_def
        ensureInstance_def start_resume_def Let_def)

section \<open>createAuth: the connection and the configuration\<close>

lemma createUsers_events:
  "createUsers w n db us = (evs, users, r) \<Longrightarrow>
     Close \<notin> set evs \<and> (r = None \<or> (\<exists>k. r = Some (CommandFailed k)))"
proof (induction us arbitrary: n db evs users r)
  case Nil
  then show ?case by simp
next
  case (Cons u us)
  then show ?case
    by (auto simp: Let_def split: if_splits prod.splits)
qed



lemma createAuth_events_end:
  assumes "createAuth w this_auth data = (evs, auth', r)"
  shows "(r = None \<or> r = Some CloseFailed \<longrightarrow> (\<exists>front. evs = front @ [Close] \<and> Close \<notin> set front)) \<and>
         (r \<noteq> None \<and> r \<noteq> Some CloseFailed \<longrightarrow> Close \<notin> set evs)"
proof (cases this_auth)
  case None
  with assms show ?thesis by (auto simp: createAuth_def)
next
  case (Some a)
  let ?uri = "uriTemplate w (StartupInstanceData.ip data) (StartupInstanceData.port data) ''admin''"
  let ?root = "[Connect ?uri, Command ''admin'' (rootCommand a)]"
  show ?thesis
  proof (cases "connect w ?uri \<and> command w 0 ''admin'' (rootCommand a)")
    case False
    with assms Some show ?thesis
      by (auto simp: createAuth_def Let_def split: if_splits)
  next
    case ok: True
    show ?thesis
    proof (cases "length (extraUsers a) > 0")
      case False
      with assms Some ok show ?thesis
        by (auto simp: createAuth_def Let_def split: if_splits)
    next
      case True
      obtain evs' users r' where
        cu: "createUsers w 1 ''admin'' (arraySort w sortCompare (extraUsers a)) = (evs', users, r')"
        by (cases "createUsers w 1 ''admin'' (arraySort w sortCompare (extraUsers a))") auto
      from createUsers_events [OF cu] have
        nc: "Close \<notin> set evs'" and rr: "r' = None \<or> (\<exists>k. r' = Some (CommandFailed k))"
        by auto
      show ?thesis
      proof (cases r')
        case None
        with assms Some ok True cu have "evs = (?root @ evs') @ [Close]"
          and "r = None \<or> r = Some CloseFailed"
          by (auto simp: createAuth_def Let_def split: if_splits)
        with nc show ?thesis by auto
      next
        case (Some e)
        with assms \<open>this_auth = Some a\<close> ok True cu have "evs = ?root @ evs'" and "r = Some e"
          by (auto simp: createAuth_def Let_def split: if_splits)
        with nc rr Some show ?thesis by auto
      qed
    qed
  qed
qed


lemma loop_database:
  "(case database (setDatabase u) of None \<Rightarrow> ''admin'' | Some d \<Rightarrow> d) = targetDatabase u"
  by (simp add: setDatabase_def targetDatabase_def split: option.splits)

lemma createUsers_step:
  "createUsers w n db (u # us) =
     (if command w n (targetDatabase u) (userCommand (setDatabase u)) then
        (case createUsers w (Suc n) (targetDatabase u) us of
           (evs, users, r) \<Rightarrow> (userEvent u # evs, setDatabase u # users, r))
      else ([userEvent u], setDatabase u # us, Some (CommandFailed n)))"
  by (simp add: Let_def loop_database userEvent_def)

lemma createUsers_loop_ok:
  "(\<forall>i<length us. command w (n + i) (targetDatabase (us ! i)) (userCommand (setDatabase (us ! i)))) \<Longrightarrow>
     createUsers w n db us = (map userEvent us, map setDatabase us, None)"
proof (induction us arbitrary: n db)
  case Nil
  then show ?case by simp
next
  case (Cons u us)
  from Cons.prems have h: "command w n (targetDatabase u) (userCommand (setDatabase u))"
    by force
  have "\<forall>i<length us. command w (Suc n + i) (targetDatabase (us ! i)) (userCommand (setDatabase (us ! i)))"
  proof (intro allI impI)
    fix i assume "i < length us"
    with Cons.prems have "command w (n + Suc i) (targetDatabase ((u # us) ! Suc i))
        (userCommand (setDatabase ((u # us) ! Suc i)))"
      by (metis Suc_less_eq length_Cons)
    then show "command w (Suc n + i) (targetDatabase (us ! i)) (userCommand (setDatabase (us ! i)))"
      by simp
  qed
  from Cons.IH [OF this] h show ?case
    by (simp add: createUsers_step del: createUsers.simps)
qed

lemma createUsers_loop_fail:
  "k < length us \<Longrightarrow>
   \<not> command w (n + k) (targetDatabase (us ! k)) (userCommand (setDatabase (us ! k))) \<Longrightarrow>
   (\<forall>i<k. command w (n + i) (targetDatabase (us ! i)) (userCommand (setDatabase (us ! i)))) \<Longrightarrow>
     createUsers w n db us =
       (map userEvent (take (Suc k) us),
        map setDatabase (take (Suc k) us) @ drop (Suc k) us,
        Some (CommandFailed (n + k)))"
proof (induction us arbitrary: n db k)
  case Nil
  then show ?case by simp
next
  case (Cons u us)
  show ?case
  proof (cases k)
    case 0
    with Cons.prems show ?thesis
      by (simp add: createUsers_step del: createUsers.simps)
  next
    case (Suc j)
    with Cons.prems have j: "j < length us"
      and nj: "\<not> command w (Suc n + j) (targetDatabase (us ! j)) (userCommand (setDatabase (us ! j)))"
      by auto
    from Cons.prems Suc have h: "command w n (targetDatabase u) (userCommand (setDatabase u))"
      by force
    have "\<forall>i<j. command w (Suc n + i) (targetDatabase (us ! i)) (userCommand (setDatabase (us ! i)))"
    proof (intro allI impI)
      fix i assume "i < j"
      with Cons.prems(3) Suc have "command w (n + Suc i) (targetDatabase ((u # us) ! Suc i))
          (userCommand (setDatabase ((u # us) ! Suc i)))"
        by (metis Suc_less_eq)
      then show "command w (Suc n + i) (targetDatabase (us ! i)) (userCommand (setDatabase (us ! i)))"
        by simp
    qed
    from Cons.IH [OF j nj this] h Suc show ?thesis
      by (simp add: createUsers_step del: createUsers.simps)
  qed
qed

lemma userEvent_not_Close: "Close \<notin> set (map userEvent us)"
  by (auto simp: userEvent_def)

text \<open>Every run of \<^verbatim>\<open>createAuth\<close>, by what the collaborators answer.\<close>

lemma createAuth_no_auth:
  "createAuth w None data =
     ([], None, Some (Error ''\"createAuth\" got called, but \"this.auth\" is undefined!''))"
  by (simp add: createAuth_def)

lemma createAuth_connect_fails:
  assumes "uri = uriTemplate w (StartupInstanceData.ip data) (StartupInstanceData.port data) ''admin''"
    and "\<not> connect w uri"
  shows "createAuth w (Some a) data = ([Connect uri], Some a, Some ConnectFailed)"
  using assms by (simp add: createAuth_def Let_def)

lemma createAuth_root_fails:
  assumes "uri = uriTemplate w (StartupInstanceData.ip data) (StartupInstanceData.port data) ''admin''"
    and "connect w uri" and "\<not> command w 0 ''admin'' (rootCommand a)"
  shows "createAuth w (Some a) data =
     ([Connect uri, Command ''admin'' (rootCommand a)], Some a, Some (CommandFailed 0))"
  using assms by (simp add: createAuth_def Let_def)

lemma createAuth_root_only:
  assumes "uri = uriTemplate w (StartupInstanceData.ip data) (StartupInstanceData.port data) ''admin''"
    and "connect w uri" and "command w 0 ''admin'' (rootCommand a)" and "extraUsers a = []"
  shows "createAuth w (Some a) data =
     ([Connect uri, Command ''admin'' (rootCommand a), Close], Some a,
      if close w then None else Some CloseFailed)"
  using assms by (simp add: createAuth_def Let_def)

lemma createAuth_all_users:
  assumes "uri = uriTemplate w (StartupInstanceData.ip data) (StartupInstanceData.port data) ''admin''"
    and "us = arraySort w sortCompare (extraUsers a)"
    and "connect w uri" and "command w 0 ''admin'' (rootCommand a)" and "extraUsers a \<noteq> []"
    and "\<forall>i<length us. userAccepted w us i"
  shows "createAuth w (Some a) data =
     ([Connect uri, Command ''admin'' (rootCommand a)] @ map userEvent us @ [Close],
      Some (a\<lparr> extraUsers := map setDatabase us \<rparr>),
      if close w then None else Some CloseFailed)"
proof -
  from assms(6) have "\<forall>i<length us. command w (1 + i) (targetDatabase (us ! i)) (userCommand (setDatabase (us ! i)))"
    by (simp add: userAccepted_def)
  from createUsers_loop_ok [OF this, of "''admin''"] assms(1-5) show ?thesis
    by (simp add: createAuth_def Let_def)
qed

lemma createAuth_user_fails:
  assumes "uri = uriTemplate w (StartupInstanceData.ip data) (StartupInstanceData.port data) ''admin''"
    and "us = arraySort w sortCompare (extraUsers a)"
    and "connect w uri" and "command w 0 ''admin'' (rootCommand a)" and "extraUsers a \<noteq> []"
    and "k < length us" and "\<not> userAccepted w us k" and "\<forall>i<k. userAccepted w us i"
  shows "createAuth w (Some a) data =
     ([Connect uri, Command ''admin'' (rootCommand a)] @ map userEvent (take (Suc k) us),
      Some (a\<lparr> extraUsers := map setDatabase (take (Suc k) us) @ drop (Suc k) us \<rparr>),
      Some (CommandFailed (Suc k)))"
proof -
  from assms(7) have n: "\<not> command w (1 + k) (targetDatabase (us ! k)) (userCommand (setDatabase (us ! k)))"
    by (simp add: userAccepted_def)
  from assms(8) have "\<forall>i<k. command w (1 + i) (targetDatabase (us ! i)) (userCommand (setDatabase (us ! i)))"
    by (simp add: userAccepted_def)
  from createUsers_loop_fail [OF assms(6) n this, of "''admin''"] assms(1-5) show ?thesis
    by (simp add: createAuth_def Let_def)
qed

lemma threeUsers_list:
  "extraUsers threeUsers =
     [mkUser ''u1'' (Some ''foo''), mkUser ''u2'' None, mkUser ''u3'' (Some ''bar'')]"
  by (simp add: threeUsers_def rootOnly_def)

lemma threeUsers_sorted:
  "ArrayTimSort sortCompare (extraUsers threeUsers) = extraUsers threeUsers"
  by (simp add: threeUsers_def rootOnly_def mkUser_def sortCompare_def ArrayTimSort_def)


lemma worlds_driver:
  "uriTemplate okWorld = mongoUri \<and> uriTemplate secondUserFailsWorld = mongoUri \<and>
   uriTemplate connectFailsWorld = mongoUri \<and>
   arraySort okWorld = ArrayTimSort \<and> arraySort secondUserFailsWorld = ArrayTimSort \<and>
   arraySort connectFailsWorld = ArrayTimSort \<and>
   connect okWorld uri \<and> connect secondUserFailsWorld uri \<and> \<not> connect connectFailsWorld uri \<and>
   command okWorld n db doc \<and> command secondUserFailsWorld n db doc = (n \<noteq> 2) \<and>
   close okWorld"
  by (simp add: okWorld_def secondUserFailsWorld_def connectFailsWorld_def)

text \<open>
  C9, as the code has it. \<open>uri\<close> is the connection string and \<open>us\<close> the extra users as the
  host's sort leaves them. A failure is the result of \<^verbatim>\<open>createAuth\<close> and ends it at once,
  with no \<^verbatim>\<open>close\<close>: the assertion when \<^verbatim>\<open>this.auth\<close> is undefined (no event at all), a
  failing connect (the connect is the only event), a failing root command (it is the
  last event), and the first failing command of an extra user (the commands of the users
  before it and its own are the last events; the users after it get no command). When
  the connection and every command succeed, the commands are followed by one \<^verbatim>\<open>close\<close>,
  the last event, and the result is that of the \<^verbatim>\<open>close\<close>. No command is a \<^verbatim>\<open>close\<close>, so in
  terms of the result alone: a run that ends without error, or with the error of the
  \<^verbatim>\<open>close\<close>, has exactly one \<^verbatim>\<open>close\<close>, at its end, and a run that ends in any other error has
  none.
\<close>

theorem createAuth_close:
  assumes "createAuth w (Some a) data = (evs, auth', r)"
    and "uri = uriTemplate w (StartupInstanceData.ip data) (StartupInstanceData.port data) ''admin''"
    and "us = arraySort w sortCompare (extraUsers a)"
  shows
   "createAuth w None data =
      ([], None, Some (Error ''\"createAuth\" got called, but \"this.auth\" is undefined!'')) \<and>
    (\<not> connect w uri \<longrightarrow> r = Some ConnectFailed \<and> evs = [Connect uri]) \<and>
    (connect w uri \<and> \<not> command w 0 ''admin'' (rootCommand a) \<longrightarrow>
       r = Some (CommandFailed 0) \<and> evs = [Connect uri, Command ''admin'' (rootCommand a)]) \<and>
    (connect w uri \<and> command w 0 ''admin'' (rootCommand a) \<and> extraUsers a \<noteq> [] \<longrightarrow>
       (\<forall>k<length us. \<not> userAccepted w us k \<and> (\<forall>i<k. userAccepted w us i) \<longrightarrow>
          r = Some (CommandFailed (Suc k)) \<and>
          evs = [Connect uri, Command ''admin'' (rootCommand a)] @ map userEvent (take (Suc k) us))) \<and>
    (connect w uri \<and> command w 0 ''admin'' (rootCommand a) \<and> extraUsers a = [] \<longrightarrow>
       r = (if close w then None else Some CloseFailed) \<and>
       evs = [Connect uri, Command ''admin'' (rootCommand a), Close]) \<and>
    (connect w uri \<and> command w 0 ''admin'' (rootCommand a) \<and> extraUsers a \<noteq> [] \<and>
     (\<forall>i<length us. userAccepted w us i) \<longrightarrow>
       r = (if close w then None else Some CloseFailed) \<and>
       evs = [Connect uri, Command ''admin'' (rootCommand a)] @ map userEvent us @ [Close]) \<and>
    (\<forall>u. userEvent u \<noteq> Close) \<and>
    (r = None \<or> r = Some CloseFailed \<longrightarrow> (\<exists>front. evs = front @ [Close] \<and> Close \<notin> set front)) \<and>
    (r \<noteq> None \<and> r \<noteq> Some CloseFailed \<longrightarrow> Close \<notin> set evs)"
proof (intro conjI impI allI)
  show "createAuth w None data =
      ([], None, Some (Error ''\"createAuth\" got called, but \"this.auth\" is undefined!''))"
    by (rule createAuth_no_auth)
next
  assume "\<not> connect w uri"
  from createAuth_connect_fails [OF assms(2) this, of a] assms(1)
  show "r = Some ConnectFailed" and "evs = [Connect uri]" by simp_all
next
  assume h: "connect w uri \<and> \<not> command w 0 ''admin'' (rootCommand a)"
  then have "connect w uri" and "\<not> command w 0 ''admin'' (rootCommand a)" by simp_all
  from createAuth_root_fails [OF assms(2) this] assms(1)
  show "r = Some (CommandFailed 0)" and "evs = [Connect uri, Command ''admin'' (rootCommand a)]"
    by simp_all
next
  fix k
  assume h: "connect w uri \<and> command w 0 ''admin'' (rootCommand a) \<and> extraUsers a \<noteq> []"
    and k: "k < length us" and f: "\<not> userAccepted w us k \<and> (\<forall>i<k. userAccepted w us i)"
  from h have 1: "connect w uri" and 2: "command w 0 ''admin'' (rootCommand a)"
    and 3: "extraUsers a \<noteq> []" by simp_all
  from f have 4: "\<not> userAccepted w us k" and 5: "\<forall>i<k. userAccepted w us i" by simp_all
  from createAuth_user_fails [OF assms(2) assms(3) 1 2 3 k 4 5] assms(1)
  show "r = Some (CommandFailed (Suc k))"
    and "evs = [Connect uri, Command ''admin'' (rootCommand a)] @ map userEvent (take (Suc k) us)"
    by simp_all
next
  assume h: "connect w uri \<and> command w 0 ''admin'' (rootCommand a) \<and> extraUsers a = []"
  then have 1: "connect w uri" and 2: "command w 0 ''admin'' (rootCommand a)"
    and 3: "extraUsers a = []" by simp_all
  from createAuth_root_only [OF assms(2) 1 2 3] assms(1)
  show "r = (if close w then None else Some CloseFailed)"
    and "evs = [Connect uri, Command ''admin'' (rootCommand a), Close]"
    by simp_all
next
  assume h: "connect w uri \<and> command w 0 ''admin'' (rootCommand a) \<and> extraUsers a \<noteq> [] \<and>
     (\<forall>i<length us. userAccepted w us i)"
  then have 1: "connect w uri" and 2: "command w 0 ''admin'' (rootCommand a)"
    and 3: "extraUsers a \<noteq> []" and 4: "\<forall>i<length us. userAccepted w us i" by simp_all
  from createAuth_all_users [OF assms(2) assms(3) 1 2 3 4] assms(1)
  show "r = (if close w then None else Some CloseFailed)"
    and "evs = [Connect uri, Command ''admin'' (rootCommand a)] @ map userEvent us @ [Close]"
    by simp_all
next
  fix u show "userEvent u \<noteq> Close" by (simp add: userEvent_def)
next
  assume "r = None \<or> r = Some CloseFailed"
  with createAuth_events_end [OF assms(1)]
  show "\<exists>front. evs = front @ [Close] \<and> Close \<notin> set front" by blast
next
  assume "r \<noteq> None \<and> r \<noteq> Some CloseFailed"
  with createAuth_events_end [OF assms(1)]
  show "Close \<notin> set evs" by blast
qed

theorem createAuth_close_witness:
  "snd (snd (createAuth okWorld (Some threeUsers) exampleData)) = None \<and>
   fst (createAuth okWorld (Some threeUsers) exampleData) =
     [Connect (mongoUri ''127.0.0.1'' 27017 ''admin''), Command ''admin'' (rootCommand threeUsers)] @
     map userEvent (extraUsers threeUsers) @ [Close] \<and>
   snd (snd (createAuth secondUserFailsWorld (Some threeUsers) exampleData)) = Some (CommandFailed 2) \<and>
   fst (createAuth secondUserFailsWorld (Some threeUsers) exampleData) =
     [Connect (mongoUri ''127.0.0.1'' 27017 ''admin''), Command ''admin'' (rootCommand threeUsers),
      userEvent (mkUser ''u1'' (Some ''foo'')), userEvent (mkUser ''u2'' None)] \<and>
   snd (snd (createAuth connectFailsWorld (Some threeUsers) exampleData)) = Some ConnectFailed \<and>
   fst (createAuth connectFailsWorld (Some threeUsers) exampleData) =
     [Connect (mongoUri ''127.0.0.1'' 27017 ''admin'')]"
proof -
  note wd = worlds_driver
  have ne: "extraUsers threeUsers \<noteq> []" and len: "length (extraUsers threeUsers) = 3"
    using threeUsers_list by simp_all
  have run1: "createAuth okWorld (Some threeUsers) exampleData =
      (fst (createAuth okWorld (Some threeUsers) exampleData),
       fst (snd (createAuth okWorld (Some threeUsers) exampleData)),
       snd (snd (createAuth okWorld (Some threeUsers) exampleData)))"
    by simp
  have uri1: "mongoUri ''127.0.0.1'' 27017 ''admin'' =
      uriTemplate okWorld (StartupInstanceData.ip exampleData) (StartupInstanceData.port exampleData) ''admin''"
    by (simp add: wd exampleData_def)
  have us1: "extraUsers threeUsers = arraySort okWorld sortCompare (extraUsers threeUsers)"
    by (simp only: wd threeUsers_sorted)
  have acc1: "\<forall>i<length (extraUsers threeUsers). userAccepted okWorld (extraUsers threeUsers) i"
    by (simp add: userAccepted_def wd)
  from createAuth_close [OF run1 uri1 us1] ne acc1
  have 1: "snd (snd (createAuth okWorld (Some threeUsers) exampleData)) = None \<and>
     fst (createAuth okWorld (Some threeUsers) exampleData) =
       [Connect (mongoUri ''127.0.0.1'' 27017 ''admin''), Command ''admin'' (rootCommand threeUsers)] @
       map userEvent (extraUsers threeUsers) @ [Close]"
    by (simp add: wd)
  have run2: "createAuth secondUserFailsWorld (Some threeUsers) exampleData =
      (fst (createAuth secondUserFailsWorld (Some threeUsers) exampleData),
       fst (snd (createAuth secondUserFailsWorld (Some threeUsers) exampleData)),
       snd (snd (createAuth secondUserFailsWorld (Some threeUsers) exampleData)))"
    by simp
  have uri2: "mongoUri ''127.0.0.1'' 27017 ''admin'' =
      uriTemplate secondUserFailsWorld (StartupInstanceData.ip exampleData)
        (StartupInstanceData.port exampleData) ''admin''"
    by (simp add: wd exampleData_def)
  have us2: "extraUsers threeUsers = arraySort secondUserFailsWorld sortCompare (extraUsers threeUsers)"
    by (simp only: wd threeUsers_sorted)
  have acc2: "\<not> userAccepted secondUserFailsWorld (extraUsers threeUsers) 1 \<and>
      (\<forall>i<1. userAccepted secondUserFailsWorld (extraUsers threeUsers) i)"
    by (simp add: userAccepted_def wd)
  have k2: "(1::nat) < length (extraUsers threeUsers)"
    using len by simp
  from createAuth_close [OF run2 uri2 us2] ne acc2 k2
  have "snd (snd (createAuth secondUserFailsWorld (Some threeUsers) exampleData)) = Some (CommandFailed (Suc 1)) \<and>
     fst (createAuth secondUserFailsWorld (Some threeUsers) exampleData) =
       [Connect (mongoUri ''127.0.0.1'' 27017 ''admin''), Command ''admin'' (rootCommand threeUsers)] @
       map userEvent (take (Suc 1) (extraUsers threeUsers))"
    by (simp add: wd)
  then have 2: "snd (snd (createAuth secondUserFailsWorld (Some threeUsers) exampleData)) = Some (CommandFailed 2) \<and>
     fst (createAuth secondUserFailsWorld (Some threeUsers) exampleData) =
       [Connect (mongoUri ''127.0.0.1'' 27017 ''admin''), Command ''admin'' (rootCommand threeUsers),
        userEvent (mkUser ''u1'' (Some ''foo'')), userEvent (mkUser ''u2'' None)]"
    using threeUsers_list by simp
  have run3: "createAuth connectFailsWorld (Some threeUsers) exampleData =
      (fst (createAuth connectFailsWorld (Some threeUsers) exampleData),
       fst (snd (createAuth connectFailsWorld (Some threeUsers) exampleData)),
       snd (snd (createAuth connectFailsWorld (Some threeUsers) exampleData)))"
    by simp
  have uri3: "mongoUri ''127.0.0.1'' 27017 ''admin'' =
      uriTemplate connectFailsWorld (StartupInstanceData.ip exampleData)
        (StartupInstanceData.port exampleData) ''admin''"
    by (simp add: wd exampleData_def)
  have us3: "extraUsers threeUsers = arraySort connectFailsWorld sortCompare (extraUsers threeUsers)"
    by (simp only: wd threeUsers_sorted)
  from createAuth_close [OF run3 uri3 us3]
  have 3: "snd (snd (createAuth connectFailsWorld (Some threeUsers) exampleData)) = Some ConnectFailed \<and>
     fst (createAuth connectFailsWorld (Some threeUsers) exampleData) =
       [Connect (mongoUri ''127.0.0.1'' 27017 ''admin'')]"
    by (simp add: wd)
  from 1 2 3 show ?thesis by blast
qed

text \<open>
  C9 as stated fails: when the command for the first extra user fails, \<^verbatim>\<open>createAuth\<close>
  rejects after the connection and two commands, and the trace has no \<^verbatim>\<open>close\<close>.
\<close>

theorem createAuth_leaves_connection_open:
  "snd (snd (createAuth commandFailsWorld (Some threeUsers) exampleData)) = Some (CommandFailed 1) \<and>
   commandLog (fst (createAuth commandFailsWorld (Some threeUsers) exampleData)) =
     [(''admin'', ''mongodb-memory-server-root''), (''foo'', ''u1'')] \<and>
   Close \<notin> set (fst (createAuth commandFailsWorld (Some threeUsers) exampleData))"
  by (simp add: commandFailsWorld_def okWorld_def rootOnly_def threeUsers_def mkUser_def
        exampleData_def createAuth_def rootCommand_def userCommand_def setDatabase_def
        sortCompare_def ArrayTimSort_def Let_def)




section \<open>The startup protocol: launch, bootstrap, relaunch\<close>

lemma createUsers_driver:
  "createUsers w n db us = (evs, users, r) \<Longrightarrow> list_all driverEvent evs"
proof (induction us arbitrary: n db evs users r)
  case Nil
  then show ?case by simp
next
  case (Cons u us)
  then show ?case
    by (auto simp: Let_def split: if_splits prod.splits)
qed

lemma createAuth_driver:
  assumes "createAuth w this_auth data = (evs, auth', r)"
  shows "list_all driverEvent evs"
proof (cases this_auth)
  case None
  with assms show ?thesis by (auto simp: createAuth_def)
next
  case (Some a)
  obtain evs' users r' where
    cu: "createUsers w 1 ''admin'' (arraySort w sortCompare (extraUsers a)) = (evs', users, r')"
    by (cases "createUsers w 1 ''admin'' (arraySort w sortCompare (extraUsers a))") auto
  from createUsers_driver [OF cu] have "list_all driverEvent evs'" .
  with assms Some cu show ?thesis
    by (auto simp: createAuth_def Let_def split: if_splits option.splits)
qed

lemma createAuth_success_closes:
  assumes "createAuth w this_auth data = (evs, auth', None)"
  shows "Close \<in> set evs"
  using createAuth_events_end [OF assms] by auto

lemma flag_auth:
  "createAuth_flag instOpts this_auth isNew \<Longrightarrow>
     this_auth \<noteq> None \<and> MongoMemoryInstanceProp.auth instOpts = Some True"
  by (auto simp: createAuth_flag_def split: option.splits)

lemma launch_first:
  "launch w this instOpts flag data = (evs, auth', r) \<Longrightarrow>
     \<exists>post. evs = Run (mongodOpts (opts this) instOpts data flag) # post"
  by (auto simp: launch_def Let_def split: option.splits if_splits prod.splits)

lemma launch_success:
  assumes "launch w this instOpts flag data = (evs, auth', Inr info)"
    and "flag \<longrightarrow> MongoMemoryServer.auth this \<noteq> None"
  shows "\<exists>i. run w (mongodOpts (opts this) instOpts data flag) = Some i \<and>
    (flag \<and> StartupInstanceData.storageEngine data \<noteq> ''ephemeralForTest'' \<longrightarrow>
       (\<exists>bevs i2. createAuth w (MongoMemoryServer.auth this) data = (bevs, auth', None) \<and> kill w i \<and>
          run w (authOpts (mongodOpts (opts this) instOpts data flag) instOpts) = Some i2 \<and>
          evs = Run (mongodOpts (opts this) instOpts data flag) # bevs @
                  [Kill i, Run (authOpts (mongodOpts (opts this) instOpts data flag) instOpts)] \<and>
          info = instanceData data i2)) \<and>
    (flag \<and> StartupInstanceData.storageEngine data = ''ephemeralForTest'' \<longrightarrow>
       (\<exists>bevs. createAuth w (MongoMemoryServer.auth this) data = (bevs, auth', None) \<and>
          evs = Run (mongodOpts (opts this) instOpts data flag) # bevs @ [Warn ephemeralWarning] \<and>
          info = instanceData data i)) \<and>
    (\<not> flag \<longrightarrow> evs = [Run (mongodOpts (opts this) instOpts data flag)] \<and> info = instanceData data i)"
  using assms
  by (auto simp: launch_def Let_def split: option.splits if_splits prod.splits)


lemma firstRun_append:
  "firstRun pre = None \<Longrightarrow> firstRun (pre @ evs) = firstRun evs"
  by (induction pre rule: firstRun.induct) auto

lemma resolveDbPath_events:
  "resolveDbPath w data = (devs, res) \<Longrightarrow> firstRun devs = None"
  by (auto simp: resolveDbPath_def Let_def split: if_splits option.splits)

lemma mongodOpts_auth:
  "MongoMemoryInstanceProp.auth (MongodOpts.instanceOpts (mongodOpts options instOpts data flag)) =
     (if flag then Some False else MongoMemoryInstanceProp.auth instOpts)"
  by (simp add: mongodOpts_def)

lemma instanceData_fields:
  "StartupInstanceData.storageEngine (instanceData data i) = StartupInstanceData.storageEngine data \<and>
   mongoInstance (instanceData data i) = Some i"
  by (simp add: instanceData_def)

text \<open>
  C4. \<open>bootstrap\<close> is the value of the constant \<^verbatim>\<open>createAuth\<close> of \<^verbatim>\<open>_startUpInstance\<close>.
  In every attempt the first launch has \<^verbatim>\<open>auth: false\<close> if \<open>bootstrap\<close> holds and the
  caller's \<^verbatim>\<open>auth\<close> otherwise. In an attempt that succeeds:
  \<^item> with \<open>bootstrap\<close> and a storage engine other than \<^verbatim>\<open>ephemeralForTest\<close>, the launch is
    followed by the driver's events, which end in a \<^verbatim>\<open>close\<close>, then by the kill of the
    launched process and a second launch whose options are those of the first with
    \<^verbatim>\<open>auth\<close> now \<^verbatim>\<open>true\<close> (the caller's value), so with the port and the data directory of
    the returned instance data, whose process is the second one;
  \<^item> with \<open>bootstrap\<close> and \<^verbatim>\<open>ephemeralForTest\<close>, the driver's events are followed by the
    warning alone, and the first process is returned;
  \<^item> without \<open>bootstrap\<close> nothing follows the launch.
\<close>

theorem startUpInstance_auth_relaunch:
  assumes "startUpInstance w this = (evs, auth', r)"
    and "instOpts = (case MongoMemoryServerOpts.instanceOpts (opts this) of
                       None \<Rightarrow> noInstanceOpts | Some i \<Rightarrow> i)"
    and "bootstrap = createAuth_flag instOpts (MongoMemoryServer.auth this) True"
  shows
   "(\<forall>mo. firstRun evs = Some mo \<longrightarrow>
       MongoMemoryInstanceProp.auth (MongodOpts.instanceOpts mo) =
         (if bootstrap then Some False else MongoMemoryInstanceProp.auth instOpts)) \<and>
    (\<forall>info. r = Inr info \<longrightarrow>
       (\<exists>pre mo i post.
          evs = pre @ Run mo # post \<and> firstRun pre = None \<and> run w mo = Some i \<and>
          (bootstrap \<and> StartupInstanceData.storageEngine info \<noteq> ''ephemeralForTest'' \<longrightarrow>
             (\<exists>bevs mo'.
                list_all driverEvent bevs \<and> Close \<in> set bevs \<and> kill w i \<and>
                post = bevs @ [Kill i, Run mo'] \<and>
                mo' = mo\<lparr> MongodOpts.instanceOpts :=
                        (MongodOpts.instanceOpts mo)\<lparr> MongoMemoryInstanceProp.auth := Some True \<rparr> \<rparr> \<and>
                MongoMemoryInstanceProp.auth instOpts = Some True \<and>
                MongoMemoryInstanceProp.port (MongodOpts.instanceOpts mo') =
                  Some (StartupInstanceData.port info) \<and>
                MongoMemoryInstanceProp.dbPath (MongodOpts.instanceOpts mo') =
                  StartupInstanceData.dbPath info \<and>
                mongoInstance info = run w mo')) \<and>
          (bootstrap \<and> StartupInstanceData.storageEngine info = ''ephemeralForTest'' \<longrightarrow>
             (\<exists>bevs. list_all driverEvent bevs \<and> Close \<in> set bevs \<and>
                post = bevs @ [Warn ephemeralWarning] \<and> mongoInstance info = Some i)) \<and>
          (\<not> bootstrap \<longrightarrow> post = [] \<and> mongoInstance info = Some i)))"
proof (cases "getPort w (MongoMemoryInstanceProp.port instOpts)")
  case None
  with assms have "evs = [GetPort (MongoMemoryInstanceProp.port instOpts)]" and "r = Inl NoPortAvailable"
    by (auto simp: startUpInstance_def Let_def)
  then show ?thesis by simp
next
  case (Some p)
  define data where
    "data = \<lparr> port = p,
              dbPath = MongoMemoryInstanceProp.dbPath instOpts,
              dbName = generateDbName w (MongoMemoryInstanceProp.dbName instOpts),
              ip = (case MongoMemoryInstanceProp.ip instOpts of None \<Rightarrow> ''127.0.0.1'' | Some a \<Rightarrow> a),
              storageEngine =
                (case MongoMemoryInstanceProp.storageEngine instOpts of
                   None \<Rightarrow> ''ephemeralForTest'' | Some e \<Rightarrow> e),
              replSet = MongoMemoryInstanceProp.replSet instOpts,
              tmpDir = None \<rparr>"
  obtain devs res where rd: "resolveDbPath w data = (devs, res)"
    by (cases "resolveDbPath w data") auto
  have nr: "firstRun devs = None"
    using resolveDbPath_events [OF rd] .
  let ?g = "GetPort (MongoMemoryInstanceProp.port instOpts)"
  show ?thesis
  proof (cases res)
    case (Inl e)
    with assms Some rd have "evs = ?g # devs" and "r = Inl e"
      by (auto simp: startUpInstance_def Let_def data_def)
    with nr show ?thesis by simp
  next
    case (Inr dn)
    obtain data' isNew' where dn: "dn = (data', isNew')"
      by (cases dn) auto
    obtain levs a2 r2 where l: "launch w this instOpts bootstrap data' = (levs, a2, r2)"
      by (cases "launch w this instOpts bootstrap data'") auto
    let ?mo = "mongodOpts (opts this) instOpts data' bootstrap"
    from assms Some rd Inr dn l have evs: "evs = (?g # devs) @ levs" and r: "r = r2"
      by (auto simp: startUpInstance_def Let_def data_def)
    from launch_first [OF l] obtain post where post: "levs = Run ?mo # post"
      by blast
    have pre: "firstRun (?g # devs) = None"
      using nr by simp
    have first: "firstRun evs = Some ?mo"
      using firstRun_append [OF pre, of levs] evs post by simp
    have fa: "bootstrap \<longrightarrow>
        MongoMemoryServer.auth this \<noteq> None \<and> MongoMemoryInstanceProp.auth instOpts = Some True"
      using flag_auth [of instOpts "MongoMemoryServer.auth this" True] assms(3) by simp
    have A: "\<forall>mo. firstRun evs = Some mo \<longrightarrow>
       MongoMemoryInstanceProp.auth (MongodOpts.instanceOpts mo) =
         (if bootstrap then Some False else MongoMemoryInstanceProp.auth instOpts)"
      using first mongodOpts_auth [of "opts this" instOpts data' bootstrap] by simp
    have B: "\<exists>pre mo i post.
          evs = pre @ Run mo # post \<and> firstRun pre = None \<and> run w mo = Some i \<and>
          (bootstrap \<and> StartupInstanceData.storageEngine info \<noteq> ''ephemeralForTest'' \<longrightarrow>
             (\<exists>bevs mo'.
                list_all driverEvent bevs \<and> Close \<in> set bevs \<and> kill w i \<and>
                post = bevs @ [Kill i, Run mo'] \<and>
                mo' = mo\<lparr> MongodOpts.instanceOpts :=
                        (MongodOpts.instanceOpts mo)\<lparr> MongoMemoryInstanceProp.auth := Some True \<rparr> \<rparr> \<and>
                MongoMemoryInstanceProp.auth instOpts = Some True \<and>
                MongoMemoryInstanceProp.port (MongodOpts.instanceOpts mo') =
                  Some (StartupInstanceData.port info) \<and>
                MongoMemoryInstanceProp.dbPath (MongodOpts.instanceOpts mo') =
                  StartupInstanceData.dbPath info \<and>
                mongoInstance info = run w mo')) \<and>
          (bootstrap \<and> StartupInstanceData.storageEngine info = ''ephemeralForTest'' \<longrightarrow>
             (\<exists>bevs. list_all driverEvent bevs \<and> Close \<in> set bevs \<and>
                post = bevs @ [Warn ephemeralWarning] \<and> mongoInstance info = Some i)) \<and>
          (\<not> bootstrap \<longrightarrow> post = [] \<and> mongoInstance info = Some i)"
      if ok: "r = Inr info" for info
    proof -
      from l r ok have l': "launch w this instOpts bootstrap data' = (levs, a2, Inr info)"
        by simp
      from launch_success [OF l'] fa obtain i where
        run: "run w ?mo = Some i"
        and pers: "bootstrap \<and> StartupInstanceData.storageEngine data' \<noteq> ''ephemeralForTest'' \<longrightarrow>
          (\<exists>bevs i2. createAuth w (MongoMemoryServer.auth this) data' = (bevs, a2, None) \<and> kill w i \<and>
             run w (authOpts ?mo instOpts) = Some i2 \<and>
             levs = Run ?mo # bevs @ [Kill i, Run (authOpts ?mo instOpts)] \<and>
             info = instanceData data' i2)"
        and eph: "bootstrap \<and> StartupInstanceData.storageEngine data' = ''ephemeralForTest'' \<longrightarrow>
          (\<exists>bevs. createAuth w (MongoMemoryServer.auth this) data' = (bevs, a2, None) \<and>
             levs = Run ?mo # bevs @ [Warn ephemeralWarning] \<and> info = instanceData data' i)"
        and plain: "\<not> bootstrap \<longrightarrow> levs = [Run ?mo] \<and> info = instanceData data' i"
        by blast
      have se: "StartupInstanceData.storageEngine info = StartupInstanceData.storageEngine data'"
        using pers eph plain instanceData_fields by (cases bootstrap) auto
      have P: "bootstrap \<and> StartupInstanceData.storageEngine info \<noteq> ''ephemeralForTest'' \<longrightarrow>
             (\<exists>bevs mo'.
                list_all driverEvent bevs \<and> Close \<in> set bevs \<and> kill w i \<and>
                post = bevs @ [Kill i, Run mo'] \<and>
                mo' = ?mo\<lparr> MongodOpts.instanceOpts :=
                        (MongodOpts.instanceOpts ?mo)\<lparr> MongoMemoryInstanceProp.auth := Some True \<rparr> \<rparr> \<and>
                MongoMemoryInstanceProp.auth instOpts = Some True \<and>
                MongoMemoryInstanceProp.port (MongodOpts.instanceOpts mo') =
                  Some (StartupInstanceData.port info) \<and>
                MongoMemoryInstanceProp.dbPath (MongodOpts.instanceOpts mo') =
                  StartupInstanceData.dbPath info \<and>
                mongoInstance info = run w mo')"
      proof
        assume h: "bootstrap \<and> StartupInstanceData.storageEngine info \<noteq> ''ephemeralForTest''"
        with pers se obtain bevs i2 where
          ca: "createAuth w (MongoMemoryServer.auth this) data' = (bevs, a2, None)"
          and k: "kill w i"
          and r2: "run w (authOpts ?mo instOpts) = Some i2"
          and le: "levs = Run ?mo # bevs @ [Kill i, Run (authOpts ?mo instOpts)]"
          and inf: "info = instanceData data' i2"
          by auto
        from h fa have au: "MongoMemoryInstanceProp.auth instOpts = Some True" by simp
        have "list_all driverEvent bevs" using createAuth_driver [OF ca] .
        moreover have "Close \<in> set bevs" using createAuth_success_closes [OF ca] .
        moreover have "post = bevs @ [Kill i, Run (authOpts ?mo instOpts)]"
          using le post by simp
        moreover have "mongoInstance info = run w (authOpts ?mo instOpts)"
          using inf r2 instanceData_fields by simp
        ultimately show "\<exists>bevs mo'.
                list_all driverEvent bevs \<and> Close \<in> set bevs \<and> kill w i \<and>
                post = bevs @ [Kill i, Run mo'] \<and>
                mo' = ?mo\<lparr> MongodOpts.instanceOpts :=
                        (MongodOpts.instanceOpts ?mo)\<lparr> MongoMemoryInstanceProp.auth := Some True \<rparr> \<rparr> \<and>
                MongoMemoryInstanceProp.auth instOpts = Some True \<and>
                MongoMemoryInstanceProp.port (MongodOpts.instanceOpts mo') =
                  Some (StartupInstanceData.port info) \<and>
                MongoMemoryInstanceProp.dbPath (MongodOpts.instanceOpts mo') =
                  StartupInstanceData.dbPath info \<and>
                mongoInstance info = run w mo'"
          using k au inf
          by (intro exI [of _ bevs] exI [of _ "authOpts ?mo instOpts"])
             (simp add: authOpts_def mongodOpts_def instanceData_def)
      qed
      have E: "bootstrap \<and> StartupInstanceData.storageEngine info = ''ephemeralForTest'' \<longrightarrow>
             (\<exists>bevs. list_all driverEvent bevs \<and> Close \<in> set bevs \<and>
                post = bevs @ [Warn ephemeralWarning] \<and> mongoInstance info = Some i)"
      proof
        assume h: "bootstrap \<and> StartupInstanceData.storageEngine info = ''ephemeralForTest''"
        with eph se obtain bevs where
          ca: "createAuth w (MongoMemoryServer.auth this) data' = (bevs, a2, None)"
          and le: "levs = Run ?mo # bevs @ [Warn ephemeralWarning]"
          and inf: "info = instanceData data' i"
          by auto
        have "list_all driverEvent bevs" using createAuth_driver [OF ca] .
        moreover have "Close \<in> set bevs" using createAuth_success_closes [OF ca] .
        moreover have "post = bevs @ [Warn ephemeralWarning]" using le post by simp
        moreover have "mongoInstance info = Some i" using inf instanceData_fields by simp
        ultimately show "\<exists>bevs. list_all driverEvent bevs \<and> Close \<in> set bevs \<and>
                post = bevs @ [Warn ephemeralWarning] \<and> mongoInstance info = Some i"
          by blast
      qed
      have N: "\<not> bootstrap \<longrightarrow> post = [] \<and> mongoInstance info = Some i"
        using plain post instanceData_fields by auto
      from evs post have "evs = (?g # devs) @ Run ?mo # post" by simp
      with pre run P E N show ?thesis by blast
    qed
    from A B show ?thesis by blast
  qed
qed

lemma startUp_freshServer:
  "snd (startUpInstance okWorld freshServer) = (Some rootOnly, Inr (instanceData exampleData 2))"
  by (simp add: okWorld_def rootOnly_def authInstance_def freshServer_def serverWith_def
        newServer_def noInstanceOpts_def startUpInstance_def createAuth_flag_def truthy_def
        resolveDbPath_def launch_def mongodOpts_def authOpts_def createAuth_def rootCommand_def
        instanceData_def exampleData_def Let_def)

lemma freshServer_flag:
  "createAuth_flag (authInstance ''wiredTiger'' None) (MongoMemoryServer.auth freshServer) True \<and>
   MongoMemoryServerOpts.instanceOpts (opts freshServer) = Some (authInstance ''wiredTiger'' None)"
  by (simp add: createAuth_flag_def authInstance_def freshServer_def serverWith_def newServer_def
        rootOnly_def noInstanceOpts_def truthy_def)

lemma run_okWorld:
  "run okWorld mo =
     Some (if MongoMemoryInstanceProp.auth (MongodOpts.instanceOpts mo) = Some True then 2 else 1)"
  by (simp add: okWorld_def)

lemma startUp_ephemeralServer:
  "snd (snd (startUpInstance okWorld ephemeralServer)) =
     Inr (instanceData (exampleData\<lparr> storageEngine := ''ephemeralForTest'' \<rparr>) 1)"
  by (simp add: okWorld_def rootOnly_def authInstance_def ephemeralServer_def serverWith_def
        newServer_def noInstanceOpts_def startUpInstance_def createAuth_flag_def truthy_def
        resolveDbPath_def launch_def mongodOpts_def authOpts_def createAuth_def rootCommand_def
        instanceData_def exampleData_def Let_def)

lemma ephemeralServer_flag:
  "createAuth_flag (authInstance ''ephemeralForTest'' None) (MongoMemoryServer.auth ephemeralServer) True \<and>
   MongoMemoryServerOpts.instanceOpts (opts ephemeralServer) = Some (authInstance ''ephemeralForTest'' None)"
  by (simp add: createAuth_flag_def authInstance_def ephemeralServer_def serverWith_def newServer_def
        rootOnly_def noInstanceOpts_def truthy_def)

lemma startUp_plainServer:
  "snd (snd (startUpInstance okWorld plainServer)) =
     Inr (instanceData (exampleData\<lparr> storageEngine := ''ephemeralForTest'' \<rparr>) 1)"
  by (simp add: okWorld_def plainServer_def serverWith_def
        newServer_def noInstanceOpts_def startUpInstance_def createAuth_flag_def truthy_def
        resolveDbPath_def launch_def mongodOpts_def
        instanceData_def exampleData_def Let_def)

lemma plainServer_flag:
  "\<not> createAuth_flag noInstanceOpts (MongoMemoryServer.auth plainServer) True \<and>
   MongoMemoryServerOpts.instanceOpts (opts plainServer) = Some noInstanceOpts"
  by (simp add: createAuth_flag_def plainServer_def serverWith_def newServer_def noInstanceOpts_def)

theorem startUpInstance_auth_relaunch_witness:
  "(\<exists>pre mo bevs.
     fst (startUpInstance okWorld freshServer) =
       pre @ Run mo # bevs @
         [Kill 1,
          Run (mo\<lparr> MongodOpts.instanceOpts :=
                   (MongodOpts.instanceOpts mo)\<lparr> MongoMemoryInstanceProp.auth := Some True \<rparr> \<rparr>)] \<and>
     firstRun pre = None \<and> list_all driverEvent bevs \<and> Close \<in> set bevs \<and>
     MongoMemoryInstanceProp.auth (MongodOpts.instanceOpts mo) = Some False) \<and>
   (\<exists>pre mo bevs.
     fst (startUpInstance okWorld ephemeralServer) = pre @ Run mo # bevs @ [Warn ephemeralWarning] \<and>
     firstRun pre = None \<and> list_all driverEvent bevs \<and> Close \<in> set bevs \<and>
     MongoMemoryInstanceProp.auth (MongodOpts.instanceOpts mo) = Some False) \<and>
   (\<exists>pre mo.
     fst (startUpInstance okWorld plainServer) = pre @ [Run mo] \<and> firstRun pre = None \<and>
     MongoMemoryInstanceProp.auth (MongodOpts.instanceOpts mo) = None)"
proof -
  have P1: "\<exists>pre mo bevs.
     fst (startUpInstance okWorld freshServer) =
       pre @ Run mo # bevs @
         [Kill 1,
          Run (mo\<lparr> MongodOpts.instanceOpts :=
                   (MongodOpts.instanceOpts mo)\<lparr> MongoMemoryInstanceProp.auth := Some True \<rparr> \<rparr>)] \<and>
     firstRun pre = None \<and> list_all driverEvent bevs \<and> Close \<in> set bevs \<and>
     MongoMemoryInstanceProp.auth (MongodOpts.instanceOpts mo) = Some False"
  proof -
    have run: "startUpInstance okWorld freshServer =
        (fst (startUpInstance okWorld freshServer), Some rootOnly, Inr (instanceData exampleData 2))"
      using startUp_freshServer by (cases "startUpInstance okWorld freshServer") auto
    have inst: "authInstance ''wiredTiger'' None =
        (case MongoMemoryServerOpts.instanceOpts (opts freshServer) of
           None \<Rightarrow> noInstanceOpts | Some i \<Rightarrow> i)"
      using freshServer_flag by simp
    have flag: "True = createAuth_flag (authInstance ''wiredTiger'' None) (MongoMemoryServer.auth freshServer) True"
      using freshServer_flag by simp
    have eng: "StartupInstanceData.storageEngine (instanceData exampleData 2) \<noteq> ''ephemeralForTest''"
      by (simp add: instanceData_def exampleData_def)
    note t = startUpInstance_auth_relaunch [OF run inst flag]
    from t eng obtain pre mo i bevs where
      evs: "fst (startUpInstance okWorld freshServer) =
              pre @ Run mo # bevs @
                [Kill i,
                 Run (mo\<lparr> MongodOpts.instanceOpts :=
                          (MongodOpts.instanceOpts mo)\<lparr> MongoMemoryInstanceProp.auth := Some True \<rparr> \<rparr>)]"
      and pre: "firstRun pre = None" and ri: "run okWorld mo = Some i"
      and bevs: "list_all driverEvent bevs" "Close \<in> set bevs"
      by auto
    have "firstRun (fst (startUpInstance okWorld freshServer)) = Some mo"
      using firstRun_append [OF pre] evs by simp
    with t have au: "MongoMemoryInstanceProp.auth (MongodOpts.instanceOpts mo) = Some False"
      by simp
    with ri have "i = 1"
      by (simp add: run_okWorld)
    with evs pre bevs au show ?thesis by blast
  qed
  have P2: "(\<exists>pre mo bevs.
     fst (startUpInstance okWorld ephemeralServer) = pre @ Run mo # bevs @ [Warn ephemeralWarning] \<and>
     firstRun pre = None \<and> list_all driverEvent bevs \<and> Close \<in> set bevs \<and>
     MongoMemoryInstanceProp.auth (MongodOpts.instanceOpts mo) = Some False) \<and>
   (\<exists>pre mo.
     fst (startUpInstance okWorld plainServer) = pre @ [Run mo] \<and> firstRun pre = None \<and>
     MongoMemoryInstanceProp.auth (MongodOpts.instanceOpts mo) = None)"
  proof -
    have run: "startUpInstance okWorld ephemeralServer =
        (fst (startUpInstance okWorld ephemeralServer), fst (snd (startUpInstance okWorld ephemeralServer)),
         Inr (instanceData (exampleData\<lparr> storageEngine := ''ephemeralForTest'' \<rparr>) 1))"
      using startUp_ephemeralServer by (cases "startUpInstance okWorld ephemeralServer") auto
    have inst: "authInstance ''ephemeralForTest'' None =
        (case MongoMemoryServerOpts.instanceOpts (opts ephemeralServer) of
           None \<Rightarrow> noInstanceOpts | Some i \<Rightarrow> i)"
      using ephemeralServer_flag by simp
    have flag: "True = createAuth_flag (authInstance ''ephemeralForTest'' None)
                         (MongoMemoryServer.auth ephemeralServer) True"
      using ephemeralServer_flag by simp
    have eng: "StartupInstanceData.storageEngine
                 (instanceData (exampleData\<lparr> storageEngine := ''ephemeralForTest'' \<rparr>) 1) = ''ephemeralForTest''"
      by (simp add: instanceData_def exampleData_def)
    note t = startUpInstance_auth_relaunch [OF run inst flag]
    from t eng obtain pre mo bevs where
      evs: "fst (startUpInstance okWorld ephemeralServer) = pre @ Run mo # bevs @ [Warn ephemeralWarning]"
      and pre: "firstRun pre = None"
      and bevs: "list_all driverEvent bevs" "Close \<in> set bevs"
      by auto
    have "firstRun (fst (startUpInstance okWorld ephemeralServer)) = Some mo"
      using firstRun_append [OF pre] evs by simp
    with t have au: "MongoMemoryInstanceProp.auth (MongodOpts.instanceOpts mo) = Some False"
      by simp
    have run2: "startUpInstance okWorld plainServer =
        (fst (startUpInstance okWorld plainServer), fst (snd (startUpInstance okWorld plainServer)),
         Inr (instanceData (exampleData\<lparr> storageEngine := ''ephemeralForTest'' \<rparr>) 1))"
      using startUp_plainServer by (cases "startUpInstance okWorld plainServer") auto
    have inst2: "noInstanceOpts =
        (case MongoMemoryServerOpts.instanceOpts (opts plainServer) of
           None \<Rightarrow> noInstanceOpts | Some i \<Rightarrow> i)"
      using plainServer_flag by simp
    have flag2: "False = createAuth_flag noInstanceOpts (MongoMemoryServer.auth plainServer) True"
      using plainServer_flag by simp
    note t2 = startUpInstance_auth_relaunch [OF run2 inst2 flag2]
    from t2 obtain pre2 mo2 where
      evs2: "fst (startUpInstance okWorld plainServer) = pre2 @ [Run mo2]"
      and pre2: "firstRun pre2 = None"
      by auto
    have "firstRun (fst (startUpInstance okWorld plainServer)) = Some mo2"
      using firstRun_append [OF pre2] evs2 by simp
    with t2 have au2: "MongoMemoryInstanceProp.auth (MongodOpts.instanceOpts mo2) = None"
      by (simp add: noInstanceOpts_def)
    from evs pre bevs au evs2 pre2 au2 show ?thesis by blast
  qed
  from P1 P2 show ?thesis by blast
qed


end
